theory Spec2Isabelle
  imports Complex_Main
begin

section \<open>Python values: exceptions, numbers, rounding\<close>

text \<open>
  The request handlers of \<open>web/urls.py\<close> are embedded as functions over an explicit
  database state. An exception that escapes a handler is a value of type \<open>error\<close>.
\<close>

datatype error =
    UnboundLocalError   \<comment> \<open>a local variable is read before any branch assigned it\<close>
  | TypeError           \<comment> \<open>arithmetic on \<open>None\<close>\<close>
  | AttributeError      \<comment> \<open>attribute access on \<open>None\<close>\<close>
  | BuildError          \<comment> \<open>\<open>url_for\<close> on a name that is no endpoint\<close>
  | SelectorError       \<comment> \<open>the meal selector raised, or its answer did not unpack\<close>
  | OverflowError       \<comment> \<open>\<open>round\<close> of an infinite float\<close>
  | ValueError          \<comment> \<open>\<open>round\<close> of a float that is not a number\<close>

definition ebind :: "error + 'a \<Rightarrow> ('a \<Rightarrow> error + 'b) \<Rightarrow> error + 'b" where
  "ebind m f = (case m of Inl e \<Rightarrow> Inl e | Inr x \<Rightarrow> f x)"

text \<open>
  A finite Python \<open>float\<close> is a rational number. Every literal and every arithmetic
  operation delivers the exact result passed through a rounding function \<open>fl\<close> (round to
  the nearest double, as if the exponent had no upper limit). The model takes \<open>fl\<close> as a
  parameter, so whatever is proved for every \<open>fl\<close> holds for exact arithmetic
  (\<open>fl = (\<lambda>x. x)\<close>) as well as for binary64. The numbers held in rows are finite
  floats, and the handlers' own sums, products and quotients of them are these:
\<close>

definition fadd :: "(rat \<Rightarrow> rat) \<Rightarrow> rat \<Rightarrow> rat \<Rightarrow> rat" where
  "fadd fl a b = fl (a + b)"

definition fmul :: "(rat \<Rightarrow> rat) \<Rightarrow> rat \<Rightarrow> rat \<Rightarrow> rat" where
  "fmul fl a b = fl (a * b)"

definition fdiv :: "(rat \<Rightarrow> rat) \<Rightarrow> rat \<Rightarrow> rat \<Rightarrow> rat" where
  "fdiv fl a b = fl (a / b)"

text \<open>
  In \<open>calculate_calories\<close> the size of the numbers decides how the call ends: a float
  operation whose rounded result lies beyond the largest double delivers an infinity
  without raising, sums and products of infinities follow IEEE 754 (\<open>inf - inf\<close> and
  \<open>inf * 0\<close> are not a number), and \<open>round\<close> raises \<open>OverflowError\<close> on an infinity and
  \<open>ValueError\<close> on what is not a number. The calculator therefore computes in
  \<open>pyfloat\<close>.
\<close>

datatype pyfloat = Finite rat | PosInf | NegInf | NaN

text \<open>The largest double, \<open>(2\<^sup>5\<^sup>3 - 1) * 2\<^sup>9\<^sup>7\<^sup>1\<close> (\<open>sys.float_info.max\<close>), written out.\<close>

definition max_float :: rat where
  "max_float =
     179769313486231570814527423731704356798070567525844996598917476803157260780028538760589558632766878171540458953514382464234321326889464182768467546703537516986049910576551282076245490090389328944075868508455133942304583236903222948165808559332123348274797826204144723168738177180919299881250404026184124858368"

definition to_float :: "(rat \<Rightarrow> rat) \<Rightarrow> rat \<Rightarrow> pyfloat" where
  "to_float fl x =
     (if max_float < fl x then PosInf
      else if fl x < - max_float then NegInf
      else Finite (fl x))"

fun float_neg :: "pyfloat \<Rightarrow> pyfloat" where
  "float_neg (Finite a) = Finite (- a)"
| "float_neg PosInf = NegInf"
| "float_neg NegInf = PosInf"
| "float_neg NaN = NaN"

fun float_add :: "(rat \<Rightarrow> rat) \<Rightarrow> pyfloat \<Rightarrow> pyfloat \<Rightarrow> pyfloat" where
  "float_add fl (Finite a) (Finite b) = to_float fl (a + b)"
| "float_add fl NaN y = NaN"
| "float_add fl x NaN = NaN"
| "float_add fl PosInf NegInf = NaN"
| "float_add fl NegInf PosInf = NaN"
| "float_add fl PosInf y = PosInf"
| "float_add fl x PosInf = PosInf"
| "float_add fl NegInf y = NegInf"
| "float_add fl x NegInf = NegInf"

fun float_sub :: "(rat \<Rightarrow> rat) \<Rightarrow> pyfloat \<Rightarrow> pyfloat \<Rightarrow> pyfloat" where
  "float_sub fl (Finite a) (Finite b) = to_float fl (a - b)"
| "float_sub fl x y = float_add fl x (float_neg y)"

fun float_sgn :: "pyfloat \<Rightarrow> rat" where
  "float_sgn (Finite a) = sgn a"
| "float_sgn PosInf = 1"
| "float_sgn NegInf = - 1"
| "float_sgn NaN = 0"

fun float_mul :: "(rat \<Rightarrow> rat) \<Rightarrow> pyfloat \<Rightarrow> pyfloat \<Rightarrow> pyfloat" where
  "float_mul fl (Finite a) (Finite b) = to_float fl (a * b)"
| "float_mul fl NaN y = NaN"
| "float_mul fl x NaN = NaN"
| "float_mul fl x y =
     (if float_sgn x * float_sgn y = 0 then NaN
      else if 0 < float_sgn x * float_sgn y then PosInf else NegInf)"

text \<open>Python 3 \<open>round(x)\<close> with one argument: the nearest integer, ties to the even one.\<close>

definition py_round :: "rat \<Rightarrow> int" where
  "py_round x =
     (let f = \<lfloor>x\<rfloor>; d = x - of_int f
      in if d < 1/2 then f
         else if 1/2 < d then f + 1
         else if even f then f else f + 1)"

text \<open>\<open>round(x)\<close> on a float that may be infinite or not a number.\<close>

definition py_round_float :: "pyfloat \<Rightarrow> error + int" where
  "py_round_float x =
     (case x of
        Finite r \<Rightarrow> Inr (py_round r)
      | PosInf \<Rightarrow> Inl OverflowError
      | NegInf \<Rightarrow> Inl OverflowError
      | NaN \<Rightarrow> Inl ValueError)"

text \<open>Arithmetic on a column that holds \<open>None\<close> raises \<open>TypeError\<close>.\<close>

definition num :: "rat option \<Rightarrow> error + rat" where
  "num v = (case v of None \<Rightarrow> Inl TypeError | Some x \<Rightarrow> Inr x)"

text \<open>Reading a local variable that no executed statement has assigned.\<close>

definition local_var :: "'a option \<Rightarrow> error + 'a" where
  "local_var v = (case v of None \<Rightarrow> Inl UnboundLocalError | Some x \<Rightarrow> Inr x)"

section \<open>The user row\<close>

text \<open>
  The columns of \<open>User\<close> that \<open>urls.py\<close> reads or writes. The biometric columns are empty
  (\<open>None\<close>) between registration and profile completion.
\<close>

record user =
  user_id :: nat
  name :: string
  email :: string
  password :: string
  image_file :: string
  height :: "rat option"
  weight :: "rat option"
  age :: "rat option"
  goal :: "string option"
  activity_level :: "string option"
  gender :: "string option"

section \<open>The metabolic calculator\<close>

text \<open>
  \<open>calculate_calories\<close>, statement by statement. \<open>BMR\<close>, \<open>AMR\<close> and \<open>calories\<close> are
  Python locals: \<open>None\<close> stands for "not assigned yet". The two gender tests are separate
  \<open>if\<close> statements; the activity tests and the goal tests are \<open>if\<close>/\<open>elif\<close> chains with
  no \<open>else\<close>.
\<close>

definition bmr_male :: "(rat \<Rightarrow> rat) \<Rightarrow> user \<Rightarrow> error + pyfloat" where
  "bmr_male fl u =
     ebind (num (weight u)) (\<lambda>w.
     ebind (num (height u)) (\<lambda>h.
     ebind (num (age u)) (\<lambda>a.
       Inr (float_sub fl
             (float_add fl
               (float_add fl (to_float fl 66.47) (float_mul fl (to_float fl 13.75) (Finite w)))
               (float_mul fl (to_float fl 5.003) (Finite h)))
             (float_mul fl (to_float fl 6.755) (Finite a))))))"

definition bmr_female :: "(rat \<Rightarrow> rat) \<Rightarrow> user \<Rightarrow> error + pyfloat" where
  "bmr_female fl u =
     ebind (num (weight u)) (\<lambda>w.
     ebind (num (height u)) (\<lambda>h.
     ebind (num (age u)) (\<lambda>a.
       Inr (float_sub fl
             (float_add fl
               (float_add fl (to_float fl 655.1) (float_mul fl (to_float fl 9.563) (Finite w)))
               (float_mul fl (to_float fl 1.85) (Finite h)))
             (float_mul fl (to_float fl 4.676) (Finite a))))))"

definition assign_bmr :: "(rat \<Rightarrow> rat) \<Rightarrow> user \<Rightarrow> error + pyfloat option" where
  "assign_bmr fl u =
     ebind (if gender u = Some ''Male''
            then ebind (bmr_male fl u) (\<lambda>b. Inr (Some b)) else Inr None) (\<lambda>BMR.
           (if gender u = Some ''Female''
            then ebind (bmr_female fl u) (\<lambda>b. Inr (Some b)) else Inr BMR))"

definition assign_amr ::
  "(rat \<Rightarrow> rat) \<Rightarrow> user \<Rightarrow> pyfloat option \<Rightarrow> error + pyfloat option" where
  "assign_amr fl u BMR =
     (if activity_level u = Some ''Sedentary''
        then ebind (local_var BMR) (\<lambda>b. Inr (Some (float_mul fl b (to_float fl 1.2))))
      else if activity_level u = Some ''Lightly Active''
        then ebind (local_var BMR) (\<lambda>b. Inr (Some (float_mul fl b (to_float fl 1.375))))
      else if activity_level u = Some ''Moderately Active''
        then ebind (local_var BMR) (\<lambda>b. Inr (Some (float_mul fl b (to_float fl 1.55))))
      else if activity_level u = Some ''Very Active''
        then ebind (local_var BMR) (\<lambda>b. Inr (Some (float_mul fl b (to_float fl 1.725))))
      else if activity_level u = Some ''Extra Active''
        then ebind (local_var BMR) (\<lambda>b. Inr (Some (float_mul fl b (to_float fl 1.9))))
      else Inr None)"

definition assign_calories ::
  "(rat \<Rightarrow> rat) \<Rightarrow> user \<Rightarrow> pyfloat option \<Rightarrow> error + pyfloat option" where
  "assign_calories fl u AMR =
     (if goal u = Some ''Lose Weight''
        then ebind (local_var AMR) (\<lambda>a. Inr (Some (float_sub fl a (Finite 500))))
      else if goal u = Some ''Maintain Weight''
        then ebind (local_var AMR) (\<lambda>a. Inr (Some a))
      else if goal u = Some ''Gain Weight''
        then ebind (local_var AMR) (\<lambda>a. Inr (Some (float_add fl a (Finite 500))))
      else Inr None)"

definition calculate_calories :: "(rat \<Rightarrow> rat) \<Rightarrow> user \<Rightarrow> error + int" where
  "calculate_calories fl u =
     ebind (assign_bmr fl u) (\<lambda>BMR.
     ebind (assign_amr fl u BMR) (\<lambda>AMR.
     ebind (assign_calories fl u AMR) (\<lambda>calories.
     ebind (local_var calories) py_round_float)))"

subsection \<open>The calculator as the specification words it\<close>

text \<open>
  Section 4.1 of the specification: a BMR by gender, an activity multiplier, a goal
  adjustment. \<open>exact_bmr\<close> is the BMR formula in exact arithmetic; \<open>spec_bmr\<close> and
  \<open>spec_value\<close> are the formulas read as float expressions. They follow the
  specification's text and are compared with \<open>calculate_calories\<close> below.
\<close>

definition exact_bmr :: "string \<Rightarrow> rat \<Rightarrow> rat \<Rightarrow> rat \<Rightarrow> rat" where
  "exact_bmr g w h a =
     (if g = ''Male'' then 66.47 + 13.75 * w + 5.003 * h - 6.755 * a
      else 655.1 + 9.563 * w + 1.85 * h - 4.676 * a)"

definition spec_bmr :: "(rat \<Rightarrow> rat) \<Rightarrow> string \<Rightarrow> rat \<Rightarrow> rat \<Rightarrow> rat \<Rightarrow> pyfloat" where
  "spec_bmr fl g w h a =
     (if g = ''Male''
      then float_sub fl
             (float_add fl
               (float_add fl (to_float fl 66.47) (float_mul fl (to_float fl 13.75) (Finite w)))
               (float_mul fl (to_float fl 5.003) (Finite h)))
             (float_mul fl (to_float fl 6.755) (Finite a))
      else float_sub fl
             (float_add fl
               (float_add fl (to_float fl 655.1) (float_mul fl (to_float fl 9.563) (Finite w)))
               (float_mul fl (to_float fl 1.85) (Finite h)))
             (float_mul fl (to_float fl 4.676) (Finite a)))"

definition spec_value ::
  "(rat \<Rightarrow> rat) \<Rightarrow> string \<Rightarrow> rat \<Rightarrow> rat \<Rightarrow> rat \<Rightarrow> rat \<Rightarrow> rat \<Rightarrow> pyfloat" where
  "spec_value fl g w h a m adj =
     float_add fl (float_mul fl (spec_bmr fl g w h a) (to_float fl m)) (Finite adj)"

definition spec_genders :: "string list" where
  "spec_genders = [''Male'', ''Female'']"

definition spec_multipliers :: "(string \<times> rat) list" where
  "spec_multipliers =
     [(''Sedentary'', 1.2), (''Lightly Active'', 1.375), (''Moderately Active'', 1.55),
      (''Very Active'', 1.725), (''Extra Active'', 1.9)]"

definition spec_adjustments :: "(string \<times> rat) list" where
  "spec_adjustments =
     [(''Lose Weight'', - 500), (''Maintain Weight'', 0), (''Gain Weight'', 500)]"

text \<open>The precondition the specification puts on a profile.\<close>

definition valid_gender :: "user \<Rightarrow> bool" where
  "valid_gender u \<longleftrightarrow> gender u \<in> Some ` set spec_genders"

definition valid_activity :: "user \<Rightarrow> bool" where
  "valid_activity u \<longleftrightarrow> activity_level u \<in> Some ` set (map fst spec_multipliers)"

definition valid_goal :: "user \<Rightarrow> bool" where
  "valid_goal u \<longleftrightarrow> goal u \<in> Some ` set (map fst spec_adjustments)"

definition valid_profile :: "user \<Rightarrow> bool" where
  "valid_profile u \<longleftrightarrow> valid_gender u \<and> valid_activity u \<and> valid_goal u"

definition example_user :: user where
  "example_user =
     \<lparr>user_id = 1, name = ''Ada'', email = ''ada@example.org'', password = ''hash'',
      image_file = ''default.jpg'', height = Some 175, weight = Some 70, age = Some 30,
      goal = Some ''Maintain Weight'', activity_level = Some ''Moderately Active'',
      gender = Some ''Male''\<rparr>"


section \<open>Time stamps\<close>

text \<open>
  A naive \<open>datetime\<close> is its distance from 0001-01-01 00:00 in microseconds, so comparing
  two of them and subtracting a \<open>timedelta\<close> are integer comparison and subtraction.
  \<open>ord2ymd\<close> is CPython's conversion of a day number (0001-01-01 is day 1) to year, month
  and day in the proleptic Gregorian calendar; \<open>strftime("%m/%d")\<close> prints the last two.
\<close>

type_synonym datetime = int

definition timedelta_days :: "int \<Rightarrow> int" where
  "timedelta_days d = d * 86400000000"

definition days_in_month :: "int \<Rightarrow> int" where
  "days_in_month m = [0, 31, 28, 31, 30, 31, 30, 31, 31, 30, 31, 30, 31] ! nat m"

definition days_before_month :: "int \<Rightarrow> int" where
  "days_before_month m = [0, 0, 31, 59, 90, 120, 151, 181, 212, 243, 273, 304, 334] ! nat m"

definition ord2ymd :: "int \<Rightarrow> int \<times> int \<times> int" where
  "ord2ymd ordinal =
     (let n = ordinal - 1;
          n400 = n div 146097; n = n mod 146097;
          n100 = n div 36524; n = n mod 36524;
          n4 = n div 1461; n = n mod 1461;
          n1 = n div 365; n = n mod 365;
          year = n400 * 400 + 1 + n100 * 100 + n4 * 4 + n1
      in if n1 = 4 \<or> n100 = 4 then (year - 1, 12, 31)
         else
           let leapyear = (n1 = 3 \<and> (n4 \<noteq> 24 \<or> n100 = 3));
               month = (n + 50) div 32;
               preceding = days_before_month month + (if 2 < month \<and> leapyear then 1 else 0)
           in if n < preceding
              then let month' = month - 1;
                       preceding' = preceding
                         - (days_in_month month' + (if month' = 2 \<and> leapyear then 1 else 0))
                   in (year, month', n - preceding' + 1)
              else (year, month, n - preceding + 1))"

definition two_digits :: "int \<Rightarrow> string" where
  "two_digits k = [''0123456789'' ! nat (k div 10 mod 10), ''0123456789'' ! nat (k mod 10)]"

definition strftime_md :: "datetime \<Rightarrow> string" where
  "strftime_md t =
     (case ord2ymd (t div 86400000000 + 1) of
        (y, m, d) \<Rightarrow> two_digits m @ ''/'' @ two_digits d)"

section \<open>The database\<close>

text \<open>
  One record per model class, with the columns \<open>urls.py\<close> writes or reads; a table is the
  list of its rows in insertion order. \<open>UserCurrentDiet\<close> keeps its primary key, which the
  two child tables refer to. The \<open>created_at\<close> column of the two history tables is filled
  by the model class, which is not part of \<open>urls.py\<close>.
\<close>

record user_calories_row =
  uc_calories :: int
  uc_user_id :: nat

record user_current_diet_row =
  ucd_id :: nat
  ucd_user_id :: nat

record user_current_diet_meals_row =
  ucdm_user_current_diet_id :: nat
  ucdm_meal_id :: nat
  ucdm_serving_size :: rat

record diet_calories_row =
  dc_user_current_diet_id :: nat
  dc_calories :: rat

record user_weight_over_time_row =
  uw_user_id :: nat
  uw_weight :: rat
  uw_created_at :: datetime

record user_calories_over_time_row =
  uco_calories :: rat
  uco_user_id :: nat
  uco_created_at :: datetime

record meals_row =
  meal_id :: nat
  meal_calories :: rat

record db =
  users :: "user list"
  user_calories :: "user_calories_row list"
  user_current_diet :: "user_current_diet_row list"
  user_current_diet_meals :: "user_current_diet_meals_row list"
  diet_calories :: "diet_calories_row list"
  user_weight_over_time :: "user_weight_over_time_row list"
  user_calories_over_time :: "user_calories_over_time_row list"

text \<open>\<open>query.filter_by(...).first()\<close>, \<open>.all()\<close> and \<open>.delete()\<close> on a table.\<close>

definition first :: "('a \<Rightarrow> bool) \<Rightarrow> 'a list \<Rightarrow> 'a option" where
  "first P rows = find P rows"

definition all_rows :: "('a \<Rightarrow> bool) \<Rightarrow> 'a list \<Rightarrow> 'a list" where
  "all_rows P rows = filter P rows"

definition delete_rows :: "('a \<Rightarrow> bool) \<Rightarrow> 'a list \<Rightarrow> 'a list" where
  "delete_rows P rows = filter (\<lambda>r. \<not> P r) rows"

text \<open>The key the database gives a new \<open>UserCurrentDiet\<close> row: one past the largest in use.\<close>

definition next_id :: "nat list \<Rightarrow> nat" where
  "next_id ids = Suc (fold max ids 0)"

text \<open>
  Modelled from the spec: the \<open>created_at\<close> default of \<open>UserWeightOverTime\<close> and
  \<open>UserCaloriesOverTime\<close> (model classes outside \<open>urls.py\<close>). Section 3 calls the samples
  "timestamped, one row per recorded event": a new row carries the time of the request
  that records it.
\<close>

definition new_weight_sample :: "datetime \<Rightarrow> nat \<Rightarrow> rat \<Rightarrow> user_weight_over_time_row" where
  "new_weight_sample now uid w = \<lparr>uw_user_id = uid, uw_weight = w, uw_created_at = now\<rparr>"

definition new_calories_sample :: "datetime \<Rightarrow> nat \<Rightarrow> rat \<Rightarrow> user_calories_over_time_row" where
  "new_calories_sample now uid c = \<lparr>uco_calories = c, uco_user_id = uid, uco_created_at = now\<rparr>"

section \<open>Responses\<close>

datatype response =
    Redirect string                                           \<comment> \<open>\<open>redirect(url)\<close>\<close>
  | Render string                                             \<comment> \<open>a page that shows a form\<close>
  | Render_get_calories int                                   \<comment> \<open>\<open>calories\<close>\<close>
  | Render_calories_over_time string "string list" "rat list" int int
      \<comment> \<open>\<open>time_frame\<close>, \<open>labels\<close>, \<open>values\<close>, \<open>recommended_intake\<close>, \<open>averaged\<close>\<close>
  | Render_weight_over_time string "string list" "rat list"
      \<comment> \<open>\<open>time_frame\<close>, \<open>labels\<close>, \<open>values\<close>\<close>

text \<open>
  What a request leaves behind: the response or the exception that escaped the handler,
  the messages passed to \<open>flash\<close> (text and category), and the committed database.
\<close>

record result =
  response :: "error + response"
  flashed :: "(string \<times> string) list"
  database :: db

text \<open>
  The endpoints \<open>urls.py\<close> registers whose URL has no parameter; a view's endpoint is its
  function name. \<open>url_for\<close> raises \<open>BuildError\<close> for any other name.
\<close>

definition endpoints :: "(string \<times> string) list" where
  "endpoints =
     [(''index'', ''/''), (''register'', ''/register''), (''login'', ''/login''),
      (''logout'', ''/logout''), (''finish_account'', ''/finish-account''),
      (''account'', ''/account''), (''get_calories'', ''/get-calories''),
      (''get_meals'', ''/get-meals''), (''show_meals'', ''/show-meals''),
      (''save_calories'', ''/save-meal''), (''show_calories'', ''/show-calories''),
      (''show_weight'', ''/show-weight''), (''reset_request'', ''/reset-password'')]"

definition url_for :: "string \<Rightarrow> error + string" where
  "url_for endpoint =
     (case map_of endpoints endpoint of None \<Rightarrow> Inl BuildError | Some url \<Rightarrow> Inr url)"

definition redirect_to :: "string \<Rightarrow> error + response" where
  "redirect_to endpoint = ebind (url_for endpoint) (\<lambda>url. Inr (Redirect url))"


section \<open>The request handlers\<close>

text \<open>
  A handler behind \<open>login_required\<close> runs for an authenticated \<open>current_user\<close>: a row of
  \<open>User\<close>, passed as \<open>u\<close>. The clock reading of the request is \<open>now\<close>. A handler that
  assigns to a user object and commits rewrites that user's row. The routes \<open>/\<close>,
  \<open>/login\<close>, \<open>/logout\<close>, \<open>/show-meals\<close> and \<open>/reset-password\<close> write no table and are left
  out, as are the file written by \<open>save_picture\<close> and the mail sent by
  \<open>send_reset_email\<close>.
\<close>

definition truthy_num :: "rat option \<Rightarrow> bool" where
  "truthy_num v \<longleftrightarrow> v \<noteq> None \<and> v \<noteq> Some 0"

definition truthy_str :: "string option \<Rightarrow> bool" where
  "truthy_str v \<longleftrightarrow> v \<noteq> None \<and> v \<noteq> Some []"

definition details_complete :: "user \<Rightarrow> bool" where
  "details_complete u \<longleftrightarrow>
     truthy_num (height u) \<and> truthy_num (weight u) \<and> truthy_num (age u) \<and>
     truthy_str (goal u) \<and> truthy_str (activity_level u) \<and> truthy_str (gender u)"

definition account_complete :: "(db \<Rightarrow> user \<Rightarrow> result) \<Rightarrow> db \<Rightarrow> user \<Rightarrow> result" where
  "account_complete f s u =
     (if \<not> details_complete u
      then \<lparr>response = redirect_to ''finish_account'',
            flashed = [(''Please complete your account details.'', ''warning'')],
            database = s\<rparr>
      else f s u)"

definition commit_user :: "user \<Rightarrow> db \<Rightarrow> db" where
  "commit_user u' s =
     s\<lparr>users := map (\<lambda>r. if user_id r = user_id u' then u' else r) (users s)\<rparr>"

subsection \<open>\<open>/register\<close>\<close>

text \<open>
  Not behind \<open>login_required\<close>: \<open>current_user\<close> is \<open>None\<close> for an anonymous visitor. The
  new row gets the next key; the columns the handler does not give stay empty, except
  \<open>image_file\<close>, whose default belongs to the model class and is a parameter here, as is
  \<open>bcrypt.generate_password_hash\<close>.
\<close>

record registration_form =
  r_name :: string
  r_email :: string
  r_password :: string

definition register ::
  "(string \<Rightarrow> string) \<Rightarrow> string \<Rightarrow> registration_form option \<Rightarrow> db \<Rightarrow> user option \<Rightarrow> result"
  where
  "register generate_password_hash default_image form s current_user =
     (if current_user \<noteq> None
      then \<lparr>response = redirect_to ''index'', flashed = [], database = s\<rparr>
      else case form of
        None \<Rightarrow> \<lparr>response = Inr (Render ''register.html''), flashed = [], database = s\<rparr>
      | Some f \<Rightarrow>
          let usr = \<lparr>user_id = next_id (map user_id (users s)), name = r_name f,
                     email = r_email f, password = generate_password_hash (r_password f),
                     image_file = default_image, height = None, weight = None, age = None,
                     goal = None, activity_level = None, gender = None\<rparr>
          in \<lparr>response = redirect_to ''login'',
              flashed = [(''Account created for '' @ r_name f @ ''!'', ''success'')],
              database = s\<lparr>users := users s @ [usr]\<rparr>\<rparr>)"

subsection \<open>\<open>/finish-account\<close> and \<open>/account\<close>\<close>

text \<open>
  The data of a form for which \<open>validate_on_submit()\<close> held; \<open>None\<close> in place of the form
  stands for a GET or a rejected submission. \<open>f_picture\<close> is the file name \<open>save_picture\<close>
  returned, when a picture was uploaded.
\<close>

record details_form =
  f_height :: rat
  f_weight :: rat
  f_age :: rat
  f_goal :: string
  f_activity_level :: string
  f_gender :: string

record account_form = details_form +
  f_name :: string
  f_email :: string
  f_picture :: "string option"

definition finish_account :: "datetime \<Rightarrow> details_form option \<Rightarrow> db \<Rightarrow> user \<Rightarrow> result" where
  "finish_account now form s u =
     (if first (\<lambda>r. uc_user_id r = user_id u) (user_calories s) \<noteq> None
      then \<lparr>response = redirect_to ''index'', flashed = [], database = s\<rparr>
      else case form of
        None \<Rightarrow> \<lparr>response = Inr (Render ''finish_account.html''), flashed = [], database = s\<rparr>
      | Some f \<Rightarrow>
          let u' = u\<lparr>height := Some (f_height f), weight := Some (f_weight f),
                     age := Some (f_age f), goal := Some (f_goal f),
                     activity_level := Some (f_activity_level f),
                     gender := Some (f_gender f)\<rparr>;
              weight_over_time = new_weight_sample now (user_id u') (f_weight f);
              s' = (commit_user u' s)
                     \<lparr>user_weight_over_time := user_weight_over_time s @ [weight_over_time]\<rparr>
          in \<lparr>response = redirect_to ''get_calories'',
              flashed = [(''Your account has been initialized!'', ''success'')],
              database = s'\<rparr>)"

definition account :: "datetime \<Rightarrow> account_form option \<Rightarrow> db \<Rightarrow> user \<Rightarrow> result" where
  "account now form s u =
     (case form of
        None \<Rightarrow> \<lparr>response = Inr (Render ''account.html''), flashed = [], database = s\<rparr>
      | Some f \<Rightarrow>
          let u1 = u\<lparr>name := f_name f, email := f_email f\<rparr>;
              u2 = (case f_picture f of None \<Rightarrow> u1 | Some picture_file \<Rightarrow>
                      u1\<lparr>image_file := picture_file\<rparr>);
              weight_changed = (weight u2 \<noteq> Some (f_weight f));
              u' = u2\<lparr>height := Some (f_height f), weight := Some (f_weight f),
                      age := Some (f_age f), goal := Some (f_goal f),
                      activity_level := Some (f_activity_level f),
                      gender := Some (f_gender f)\<rparr>;
              s1 = commit_user u' s;
              s' = (if weight_changed
                    then s1\<lparr>user_weight_over_time := user_weight_over_time s1
                              @ [new_weight_sample now (user_id u') (f_weight f)]\<rparr>
                    else s1)
          in \<lparr>response = redirect_to ''get_calories'',
              flashed = [(''Your account has been updated!'', ''success'')],
              database = s'\<rparr>)"

subsection \<open>\<open>/get-calories\<close>\<close>

definition replace_target :: "int \<Rightarrow> db \<Rightarrow> user \<Rightarrow> db" where
  "replace_target calories s u =
     (let rows = (if first (\<lambda>r. uc_user_id r = user_id u) (user_calories s) \<noteq> None
                  then delete_rows (\<lambda>r. uc_user_id r = user_id u) (user_calories s)
                  else user_calories s)
      in s\<lparr>user_calories := rows @ [\<lparr>uc_calories = calories, uc_user_id = user_id u\<rparr>]\<rparr>)"

definition get_calories :: "(rat \<Rightarrow> rat) \<Rightarrow> db \<Rightarrow> user \<Rightarrow> result" where
  "get_calories fl = account_complete (\<lambda>s u.
     case calculate_calories fl u of
       Inl e \<Rightarrow> \<lparr>response = Inl e, flashed = [], database = s\<rparr>
     | Inr calories \<Rightarrow>
         \<lparr>response = Inr (Render_get_calories calories), flashed = [],
          database = replace_target calories s u\<rparr>)"

subsection \<open>\<open>/get-meals\<close>\<close>

text \<open>
  \<open>choose_meals_for_user\<close> belongs to \<open>web.meal_planner\<close>, outside \<open>urls.py\<close>. The handler
  takes what that call returned in this request: three pairs of a meal and a serving size,
  or the exception it raised.
\<close>

type_synonym selection = "(meals_row \<times> rat) \<times> (meals_row \<times> rat) \<times> (meals_row \<times> rat)"

text \<open>The rows built from the three pairs for the diet with key \<open>diet\<close>.\<close>

definition user_current_meals :: "nat \<Rightarrow> selection \<Rightarrow> user_current_diet_meals_row list" where
  "user_current_meals diet chosen =
     (case chosen of
        ((breakfast_meal, breakfast_serving), (lunch_meal, lunch_serving),
         (dinner_meal, dinner_serving)) \<Rightarrow>
          [\<lparr>ucdm_user_current_diet_id = diet, ucdm_meal_id = meal_id breakfast_meal,
             ucdm_serving_size = breakfast_serving\<rparr>,
           \<lparr>ucdm_user_current_diet_id = diet, ucdm_meal_id = meal_id lunch_meal,
             ucdm_serving_size = lunch_serving\<rparr>,
           \<lparr>ucdm_user_current_diet_id = diet, ucdm_meal_id = meal_id dinner_meal,
             ucdm_serving_size = dinner_serving\<rparr>])"

definition diet_calories_of :: "(rat \<Rightarrow> rat) \<Rightarrow> nat \<Rightarrow> selection \<Rightarrow> diet_calories_row" where
  "diet_calories_of fl diet chosen =
     (case chosen of
        ((breakfast_meal, breakfast_serving), (lunch_meal, lunch_serving),
         (dinner_meal, dinner_serving)) \<Rightarrow>
          \<lparr>dc_user_current_diet_id = diet,
           dc_calories =
             fadd fl
               (fadd fl (fmul fl (meal_calories breakfast_meal) breakfast_serving)
                        (fmul fl (meal_calories lunch_meal) lunch_serving))
               (fmul fl (meal_calories dinner_meal) dinner_serving)\<rparr>)"

text \<open>
  The diet replacement: the rows of an existing diet are deleted, or a new diet row is
  added and committed; then the three meal rows and the total are added and committed.
\<close>

definition replace_diet :: "(rat \<Rightarrow> rat) \<Rightarrow> selection \<Rightarrow> db \<Rightarrow> user \<Rightarrow> db" where
  "replace_diet fl chosen s u =
     (let (user_current_diet_row, s1) =
            (case first (\<lambda>d. ucd_user_id d = user_id u) (user_current_diet s) of
               Some d \<Rightarrow>
                 (d, s\<lparr>user_current_diet_meals :=
                          delete_rows (\<lambda>m. ucdm_user_current_diet_id m = ucd_id d)
                            (user_current_diet_meals s),
                        diet_calories :=
                          delete_rows (\<lambda>c. dc_user_current_diet_id c = ucd_id d)
                            (diet_calories s)\<rparr>)
             | None \<Rightarrow>
                 let d = \<lparr>ucd_id = next_id (map ucd_id (user_current_diet s)),
                          ucd_user_id = user_id u\<rparr>
                 in (d, s\<lparr>user_current_diet := user_current_diet s @ [d]\<rparr>));
          diet = ucd_id user_current_diet_row
      in s1\<lparr>user_current_diet_meals :=
                user_current_diet_meals s1 @ user_current_meals diet chosen,
              diet_calories := diet_calories s1 @ [diet_calories_of fl diet chosen]\<rparr>)"

definition get_meals :: "(rat \<Rightarrow> rat) \<Rightarrow> error + selection \<Rightarrow> db \<Rightarrow> user \<Rightarrow> result" where
  "get_meals fl chosen = account_complete (\<lambda>s u.
     if first (\<lambda>r. uc_user_id r = user_id u) (user_calories s) = None
     then \<lparr>response = redirect_to ''get_calories'', flashed = [], database = s\<rparr>
     else case chosen of
       Inl e \<Rightarrow> \<lparr>response = Inl e, flashed = [], database = s\<rparr>
     | Inr meals \<Rightarrow>
         \<lparr>response = redirect_to ''show_meals'', flashed = [],
          database = replace_diet fl meals s u\<rparr>)"

subsection \<open>\<open>/save-meal\<close>\<close>

text \<open>\<open>x.attr\<close> where \<open>x\<close> came from \<open>first()\<close> and may be \<open>None\<close>.\<close>

definition attr :: "'a option \<Rightarrow> ('a \<Rightarrow> 'b) \<Rightarrow> error + 'b" where
  "attr x field = (case x of None \<Rightarrow> Inl AttributeError | Some r \<Rightarrow> Inr (field r))"

definition save_calories :: "datetime \<Rightarrow> db \<Rightarrow> user \<Rightarrow> result" where
  "save_calories now = account_complete (\<lambda>s u.
     case ebind (attr (first (\<lambda>d. ucd_user_id d = user_id u) (user_current_diet s)) ucd_id)
            (\<lambda>diet. attr (first (\<lambda>c. dc_user_current_diet_id c = diet) (diet_calories s))
                      dc_calories)
     of Inl e \<Rightarrow> \<lparr>response = Inl e, flashed = [], database = s\<rparr>
      | Inr c \<Rightarrow>
          \<lparr>response = redirect_to ''index'',
           flashed = [(''You chose a great meal plan for today!'', ''success'')],
           database = s\<lparr>user_calories_over_time := user_calories_over_time s
                           @ [new_calories_sample now (user_id u) c]\<rparr>\<rparr>)"

subsection \<open>\<open>/show-calories\<close> and \<open>/show-weight\<close>\<close>

text \<open>
  \<open>form_time\<close> is \<open>form.time.data\<close> when \<open>validate_on_submit()\<close> held, else \<open>None\<close> (the
  route passes no \<open>time_frame\<close>). The \<open>if\<close>/\<open>elif\<close> chain assigns the query result to a
  local that stays unassigned for any other \<open>time_frame\<close>.
\<close>

definition calories_since :: "db \<Rightarrow> nat \<Rightarrow> datetime \<Rightarrow> user_calories_over_time_row list" where
  "calories_since s uid t =
     all_rows (\<lambda>r. uco_user_id r = uid \<and> t \<le> uco_created_at r) (user_calories_over_time s)"

definition weights_since :: "db \<Rightarrow> nat \<Rightarrow> datetime \<Rightarrow> user_weight_over_time_row list" where
  "weights_since s uid t =
     all_rows (\<lambda>r. uw_user_id r = uid \<and> t \<le> uw_created_at r) (user_weight_over_time s)"

definition calories_query ::
  "datetime \<Rightarrow> string option \<Rightarrow> db \<Rightarrow> user
     \<Rightarrow> string \<times> user_calories_over_time_row list option" where
  "calories_query now time_frame s u =
     (case time_frame of
        None \<Rightarrow> (''1 Week'', Some (calories_since s (user_id u) (now - timedelta_days 7)))
      | Some tf \<Rightarrow>
          if tf = ''1 Week''
            then (tf, Some (calories_since s (user_id u) (now - timedelta_days 7)))
          else if tf = ''2 Weeks''
            then (tf, Some (calories_since s (user_id u) (now - timedelta_days 14)))
          else if tf = ''3 Weeks''
            then (tf, Some (calories_since s (user_id u) (now - timedelta_days 21)))
          else if tf = ''1 Month''
            then (tf, Some (calories_since s (user_id u) (now - timedelta_days 30)))
          else (tf, None))"

definition weights_query ::
  "datetime \<Rightarrow> string option \<Rightarrow> db \<Rightarrow> user
     \<Rightarrow> string \<times> user_weight_over_time_row list option" where
  "weights_query now time_frame s u =
     (case time_frame of
        None \<Rightarrow> (''1 Month'', Some (weights_since s (user_id u) (now - timedelta_days 30)))
      | Some tf \<Rightarrow>
          if tf = ''1 Week''
            then (tf, Some (weights_since s (user_id u) (now - timedelta_days 7)))
          else if tf = ''2 Weeks''
            then (tf, Some (weights_since s (user_id u) (now - timedelta_days 14)))
          else if tf = ''3 Weeks''
            then (tf, Some (weights_since s (user_id u) (now - timedelta_days 21)))
          else if tf = ''1 Month''
            then (tf, Some (weights_since s (user_id u) (now - timedelta_days 30)))
          else if tf = ''3 Months''
            then (tf, Some (weights_since s (user_id u) (now - timedelta_days 90)))
          else if tf = ''6 Months''
            then (tf, Some (weights_since s (user_id u) (now - timedelta_days 180)))
          else if tf = ''1 Year''
            then (tf, Some (weights_since s (user_id u) (now - timedelta_days 365)))
          else (tf, None))"

text \<open>The two \<open>for\<close> loops that fill \<open>labels\<close> and \<open>values\<close>, one \<open>append\<close> each per row.\<close>

fun calories_series ::
  "user_calories_over_time_row list \<Rightarrow> string list \<Rightarrow> rat list \<Rightarrow> string list \<times> rat list" where
  "calories_series [] labels vals = (labels, vals)"
| "calories_series (cl # rest) labels vals =
     calories_series rest (labels @ [strftime_md (uco_created_at cl)]) (vals @ [uco_calories cl])"

fun weight_series ::
  "user_weight_over_time_row list \<Rightarrow> string list \<Rightarrow> rat list \<Rightarrow> string list \<times> rat list" where
  "weight_series [] labels vals = (labels, vals)"
| "weight_series (w # rest) labels vals =
     weight_series rest (labels @ [strftime_md (uw_created_at w)]) (vals @ [uw_weight w])"

text \<open>\<open>sum(values)\<close> starts from 0 and adds from the left.\<close>

definition py_sum :: "(rat \<Rightarrow> rat) \<Rightarrow> rat list \<Rightarrow> rat" where
  "py_sum fl xs = foldl (fadd fl) 0 xs"

definition show_calories ::
  "(rat \<Rightarrow> rat) \<Rightarrow> datetime \<Rightarrow> string option \<Rightarrow> db \<Rightarrow> user \<Rightarrow> result" where
  "show_calories fl now form_time = account_complete (\<lambda>s u.
     if first (\<lambda>r. uc_user_id r = user_id u) (user_calories s) = None
     then \<lparr>response = redirect_to ''show-meals'',
           flashed = [(''Please choose your meals first'', ''danger'')], database = s\<rparr>
     else
       let (time_frame, calories) = calories_query now form_time s u
       in (case ebind (local_var calories) (\<lambda>rows.
                ebind (attr (first (\<lambda>r. uc_user_id r = user_id u) (user_calories s))
                         uc_calories)
                  (\<lambda>recommended_intake. Inr (calories_series rows [] [], recommended_intake)))
           of Inl e \<Rightarrow> \<lparr>response = Inl e, flashed = [], database = s\<rparr>
            | Inr ((labels, vals), recommended_intake) \<Rightarrow>
                if length vals = 0
                then \<lparr>response = redirect_to ''show-calories'',
                      flashed = [(''You have not entered any calories in this period'',
                                  ''danger'')],
                      database = s\<rparr>
                else
                  let averaged = py_round (fdiv fl (py_sum fl vals) (of_nat (length vals)))
                  in \<lparr>response =
                        Inr (Render_calories_over_time time_frame labels vals
                               recommended_intake averaged),
                      flashed = [], database = s\<rparr>))"

definition show_weight :: "datetime \<Rightarrow> string option \<Rightarrow> db \<Rightarrow> user \<Rightarrow> result" where
  "show_weight now form_time = account_complete (\<lambda>s u.
     let (time_frame, weights) = weights_query now form_time s u
     in (case local_var weights of
           Inl e \<Rightarrow> \<lparr>response = Inl e, flashed = [], database = s\<rparr>
         | Inr rows \<Rightarrow>
             (case weight_series rows [] [] of (labels, vals) \<Rightarrow>
                \<lparr>response = Inr (Render_weight_over_time time_frame labels vals),
                 flashed = [], database = s\<rparr>)))"

subsection \<open>\<open>/reset-password/<token>\<close>\<close>

text \<open>
  This route is not behind \<open>login_required\<close>: \<open>current_user\<close> is \<open>None\<close> for an anonymous
  visitor. \<open>User.verify_reset_token\<close> and \<open>bcrypt.generate_password_hash\<close> lie outside
  \<open>urls.py\<close> and are parameters. \<open>form_password\<close> is \<open>form.password.data\<close> when
  \<open>validate_on_submit()\<close> held.
\<close>

definition reset_token ::
  "(string \<Rightarrow> user option) \<Rightarrow> (string \<Rightarrow> string) \<Rightarrow> string \<Rightarrow> string option
     \<Rightarrow> db \<Rightarrow> user option \<Rightarrow> result" where
  "reset_token verify_reset_token generate_password_hash token form_password s current_user =
     (if current_user \<noteq> None
      then \<lparr>response = redirect_to ''index'', flashed = [], database = s\<rparr>
      else case verify_reset_token token of
        None \<Rightarrow>
          \<lparr>response = redirect_to ''reset_request'',
           flashed = [(''That is an invalid or expired token'', ''warning'')], database = s\<rparr>
      | Some usr \<Rightarrow>
          (case form_password of
             None \<Rightarrow> \<lparr>response = Inr (Render ''reset_token.html''), flashed = [], database = s\<rparr>
           | Some pw \<Rightarrow>
               \<lparr>response = redirect_to ''login'',
                flashed = [(''Your password has been updated! You are now able to log in'',
                            ''success'')],
                database = commit_user (usr\<lparr>password := generate_password_hash pw\<rparr>) s\<rparr>))"

section \<open>Runs of the application\<close>

text \<open>
  The routes that write the database. A request carries its clock reading and the
  session: the id of the logged-in user, if any. \<open>login_required\<close> turns a session without
  a user row away before any code of \<open>urls.py\<close> runs, which leaves the database as it is.
\<close>

datatype member_request =
    Finish_account "details_form option"
  | Account "account_form option"
  | Get_calories
  | Get_meals "error + selection"
  | Save_meal

datatype request =
    Register "string \<Rightarrow> string" string "registration_form option"
  | Reset_token "string \<Rightarrow> user option" "string \<Rightarrow> string" string "string option"
  | Member member_request

fun handle :: "(rat \<Rightarrow> rat) \<Rightarrow> datetime \<Rightarrow> member_request \<Rightarrow> db \<Rightarrow> user \<Rightarrow> result" where
  "handle fl now (Finish_account form) = finish_account now form"
| "handle fl now (Account form) = account now form"
| "handle fl now Get_calories = get_calories fl"
| "handle fl now (Get_meals chosen) = get_meals fl chosen"
| "handle fl now Save_meal = save_calories now"

definition load_user :: "db \<Rightarrow> nat option \<Rightarrow> user option" where
  "load_user s session =
     (case session of None \<Rightarrow> None | Some uid \<Rightarrow> first (\<lambda>u. user_id u = uid) (users s))"

fun serve :: "(rat \<Rightarrow> rat) \<Rightarrow> datetime \<Rightarrow> request \<Rightarrow> db \<Rightarrow> user option \<Rightarrow> db" where
  "serve fl now (Register generate_password_hash default_image form) s cu =
     database (register generate_password_hash default_image form s cu)"
| "serve fl now (Reset_token verify_reset_token generate_password_hash token form_password) s cu =
     database (reset_token verify_reset_token generate_password_hash token form_password s cu)"
| "serve fl now (Member req) s cu =
     (case cu of None \<Rightarrow> s | Some u \<Rightarrow> database (handle fl now req s u))"

definition step :: "(rat \<Rightarrow> rat) \<Rightarrow> db \<Rightarrow> datetime \<times> nat option \<times> request \<Rightarrow> db" where
  "step fl s r = (case r of (now, session, req) \<Rightarrow> serve fl now req s (load_user s session))"

fun run :: "(rat \<Rightarrow> rat) \<Rightarrow> db \<Rightarrow> (datetime \<times> nat option \<times> request) list \<Rightarrow> db" where
  "run fl s [] = s"
| "run fl s (r # rs) = run fl (step fl s r) rs"

text \<open>A database that holds at most users: the empty one, or one after registrations.\<close>

definition fresh_db :: "db \<Rightarrow> bool" where
  "fresh_db s \<longleftrightarrow>
     user_calories s = [] \<and> user_current_diet s = [] \<and> user_current_diet_meals s = [] \<and>
     diet_calories s = [] \<and> user_weight_over_time s = [] \<and> user_calories_over_time s = []"

text \<open>The clock never runs backwards from one request to the next.\<close>

definition clock_monotone :: "(datetime \<times> nat option \<times> request) list \<Rightarrow> bool" where
  "clock_monotone rs \<longleftrightarrow> sorted (map fst rs)"

subsection \<open>What the specification says of the tables\<close>

text \<open>Section 3: at most one target and one diet per user, three meals and one total per diet.\<close>

definition targets_of :: "db \<Rightarrow> nat \<Rightarrow> user_calories_row list" where
  "targets_of s uid = all_rows (\<lambda>r. uc_user_id r = uid) (user_calories s)"

definition diets_of :: "db \<Rightarrow> nat \<Rightarrow> user_current_diet_row list" where
  "diets_of s uid = all_rows (\<lambda>d. ucd_user_id d = uid) (user_current_diet s)"

definition meals_of :: "db \<Rightarrow> nat \<Rightarrow> user_current_diet_meals_row list" where
  "meals_of s diet = all_rows (\<lambda>m. ucdm_user_current_diet_id m = diet) (user_current_diet_meals s)"

definition totals_of :: "db \<Rightarrow> nat \<Rightarrow> diet_calories_row list" where
  "totals_of s diet = all_rows (\<lambda>c. dc_user_current_diet_id c = diet) (diet_calories s)"

definition spec_invariant :: "db \<Rightarrow> bool" where
  "spec_invariant s \<longleftrightarrow>
     (\<forall>uid. length (targets_of s uid) \<le> 1) \<and>
     (\<forall>uid. length (diets_of s uid) \<le> 1) \<and>
     (\<forall>d \<in> set (user_current_diet s).
        length (meals_of s (ucd_id d)) = 3 \<and> length (totals_of s (ucd_id d)) = 1)"

text \<open>Section 4.3: the named windows and their spans in days.\<close>

definition spec_calorie_windows :: "(string \<times> int) list" where
  "spec_calorie_windows = [(''1 Week'', 7), (''2 Weeks'', 14), (''3 Weeks'', 21), (''1 Month'', 30)]"

definition spec_weight_windows :: "(string \<times> int) list" where
  "spec_weight_windows =
     spec_calorie_windows @ [(''3 Months'', 90), (''6 Months'', 180), (''1 Year'', 365)]"

text \<open>Section 4.3: the rows of the user's log with a time stamp of at least now minus the window.\<close>

definition spec_weight_history ::
  "db \<Rightarrow> nat \<Rightarrow> datetime \<Rightarrow> int \<Rightarrow> user_weight_over_time_row list" where
  "spec_weight_history s uid now days =
     [r \<leftarrow> user_weight_over_time s. uw_user_id r = uid \<and> now - days * 86400000000 \<le> uw_created_at r]"

definition spec_calories_history ::
  "db \<Rightarrow> nat \<Rightarrow> datetime \<Rightarrow> int \<Rightarrow> user_calories_over_time_row list" where
  "spec_calories_history s uid now days =
     [r \<leftarrow> user_calories_over_time s.
        uco_user_id r = uid \<and> now - days * 86400000000 \<le> uco_created_at r]"

subsection \<open>Invariants of a run\<close>

text \<open>
  What the handlers keep true of the target and diet tables: one target per user, one
  diet per user and per key, three meal rows and one total per diet, and no meal row or
  total without its diet.
\<close>

definition store_inv :: "db \<Rightarrow> bool" where
  "store_inv s \<longleftrightarrow>
     (\<forall>uid. length (targets_of s uid) \<le> 1) \<and>
     distinct (map ucd_user_id (user_current_diet s)) \<and>
     distinct (map ucd_id (user_current_diet s)) \<and>
     (\<forall>d \<in> set (user_current_diet s).
        length (meals_of s (ucd_id d)) = 3 \<and> length (totals_of s (ucd_id d)) = 1) \<and>
     (\<forall>m \<in> set (user_current_diet_meals s).
        ucdm_user_current_diet_id m \<in> ucd_id ` set (user_current_diet s)) \<and>
     (\<forall>c \<in> set (diet_calories s).
        dc_user_current_diet_id c \<in> ucd_id ` set (user_current_diet s))"

text \<open>Both history tables are in time order and hold nothing later than \<open>t\<close>.\<close>

definition chronological :: "db \<Rightarrow> datetime \<Rightarrow> bool" where
  "chronological s t \<longleftrightarrow>
     sorted (map uw_created_at (user_weight_over_time s) @ [t]) \<and>
     sorted (map uco_created_at (user_calories_over_time s) @ [t])"

subsection \<open>Sample data\<close>

definition example_user_female :: user where
  "example_user_female =
     example_user\<lparr>goal := Some ''Lose Weight'', activity_level := Some ''Sedentary'',
                   gender := Some ''Female''\<rparr>"

definition example_db :: db where
  "example_db =
     \<lparr>users = [example_user], user_calories = [], user_current_diet = [],
      user_current_diet_meals = [], diet_calories = [], user_weight_over_time = [],
      user_calories_over_time = []\<rparr>"

definition example_selection :: selection where
  "example_selection =
     ((\<lparr>meal_id = 11, meal_calories = 300\<rparr>, 2),
      (\<lparr>meal_id = 12, meal_calories = 450\<rparr>, 1.5),
      (\<lparr>meal_id = 13, meal_calories = 600\<rparr>, 1))"

definition example_account_form :: account_form where
  "example_account_form =
     \<lparr>f_height = 175, f_weight = 72, f_age = 30, f_goal = ''Maintain Weight'',
      f_activity_level = ''Moderately Active'', f_gender = ''Male'', f_name = ''Ada'',
      f_email = ''ada@example.org'', f_picture = None\<rparr>"

text \<open>Two clock readings a day apart, on 2026-11-04 and 2026-11-05.\<close>

definition day1 :: datetime where
  "day1 = 739923 * 86400000000"

definition day2 :: datetime where
  "day2 = 739924 * 86400000000"

definition example_run :: "(datetime \<times> nat option \<times> request) list" where
  "example_run =
     [(day1, Some 1, Member (Account (Some example_account_form))),
      (day1, Some 1, Member Get_calories),
      (day1, Some 1, Member (Get_meals (Inr example_selection))),
      (day1, Some 1, Member Save_meal),
      (day2, Some 1, Member Get_calories),
      (day2, Some 1, Member (Get_meals (Inr example_selection)))]"

text \<open>A target but no consumed diet yet; and two weight changes with the clock set back.\<close>

definition target_only_db :: db where
  "target_only_db = run (\<lambda>x. x) example_db [(day1, Some 1, Member Get_calories)]"

definition backwards_run :: "(datetime \<times> nat option \<times> request) list" where
  "backwards_run =
     [(day2, Some 1, Member (Account (Some example_account_form))),
      (day1, Some 1, Member (Account (Some (example_account_form\<lparr>f_weight := 74\<rparr>))))]"

section \<open>The calculator: stage by stage\<close>

lemma assign_bmr_valid:
  "weight u = Some w \<Longrightarrow> height u = Some h \<Longrightarrow> age u = Some a \<Longrightarrow> valid_gender u \<Longrightarrow>
   \<exists>b. assign_bmr fl u = Inr (Some b)"
  by (auto simp: valid_gender_def spec_genders_def assign_bmr_def bmr_male_def bmr_female_def
      ebind_def num_def)

lemma assign_bmr_invalid: "\<not> valid_gender u \<Longrightarrow> assign_bmr fl u = Inr None"
  by (auto simp: valid_gender_def spec_genders_def assign_bmr_def ebind_def)

lemma assign_bmr_None: "assign_bmr fl u = Inr None \<Longrightarrow> \<not> valid_gender u"
  by (auto simp: assign_bmr_def valid_gender_def spec_genders_def ebind_def
      split: if_splits sum.splits)

lemma assign_amr_valid_Some:
  "valid_activity u \<Longrightarrow> \<exists>a. assign_amr fl u (Some b) = Inr (Some a)"
  by (auto simp: valid_activity_def spec_multipliers_def assign_amr_def ebind_def local_var_def)

lemma assign_amr_valid_None:
  "valid_activity u \<Longrightarrow> assign_amr fl u None = Inl UnboundLocalError"
  by (auto simp: valid_activity_def spec_multipliers_def assign_amr_def ebind_def local_var_def)

lemma assign_amr_invalid: "\<not> valid_activity u \<Longrightarrow> assign_amr fl u B = Inr None"
  by (auto simp: valid_activity_def spec_multipliers_def assign_amr_def)

lemma assign_calories_valid_Some:
  "valid_goal u \<Longrightarrow> \<exists>c. assign_calories fl u (Some a) = Inr (Some c)"
  by (auto simp: valid_goal_def spec_adjustments_def assign_calories_def ebind_def local_var_def)

lemma assign_calories_valid_None:
  "valid_goal u \<Longrightarrow> assign_calories fl u None = Inl UnboundLocalError"
  by (auto simp: valid_goal_def spec_adjustments_def assign_calories_def ebind_def local_var_def)

lemma assign_calories_invalid: "\<not> valid_goal u \<Longrightarrow> assign_calories fl u A = Inr None"
  by (auto simp: valid_goal_def spec_adjustments_def assign_calories_def)

lemma py_round_float_cases:
  "(\<exists>c. py_round_float x = Inr c) \<or> py_round_float x = Inl OverflowError \<or>
   py_round_float x = Inl ValueError"
  by (cases x) (simp_all add: py_round_float_def)

lemma calculate_calories_valid:
  assumes "weight u = Some w" "height u = Some h" "age u = Some a" "valid_profile u"
  shows "\<exists>x. calculate_calories fl u = py_round_float x"
proof -
  from assms obtain b where b: "assign_bmr fl u = Inr (Some b)"
    using assign_bmr_valid[of u w h a fl] by (auto simp: valid_profile_def)
  from assms obtain m where m: "assign_amr fl u (Some b) = Inr (Some m)"
    using assign_amr_valid_Some[of u fl b] by (auto simp: valid_profile_def)
  from assms obtain c where c: "assign_calories fl u (Some m) = Inr (Some c)"
    using assign_calories_valid_Some[of u fl m] by (auto simp: valid_profile_def)
  show ?thesis by (auto simp add: calculate_calories_def b m c ebind_def local_var_def)
qed

lemma calculate_calories_valid_cases:
  assumes "weight u = Some w" "height u = Some h" "age u = Some a" "valid_profile u"
  shows "(\<exists>c. calculate_calories fl u = Inr c) \<or> calculate_calories fl u = Inl OverflowError \<or>
         calculate_calories fl u = Inl ValueError"
proof -
  from calculate_calories_valid[OF assms, of fl]
  obtain x where "calculate_calories fl u = py_round_float x" by blast
  then show ?thesis using py_round_float_cases[of x] by simp
qed

lemma assign_bmr_missing_number:
  assumes "valid_gender u" and "weight u = None \<or> height u = None \<or> age u = None"
  shows "assign_bmr fl u = Inl TypeError"
  using assms
  by (auto simp: valid_gender_def spec_genders_def assign_bmr_def bmr_male_def bmr_female_def
      ebind_def num_def split: option.splits)

lemma calculate_calories_missing_number:
  assumes "valid_gender u" and "weight u = None \<or> height u = None \<or> age u = None"
  shows "calculate_calories fl u = Inl TypeError"
  by (simp add: calculate_calories_def assign_bmr_missing_number[OF assms] ebind_def)

lemma calculate_calories_valid_bound:
  assumes "valid_profile u"
  shows "calculate_calories fl u \<noteq> Inl UnboundLocalError"
proof (cases "weight u = None \<or> height u = None \<or> age u = None")
  case True
  from assms have "valid_gender u" by (simp add: valid_profile_def)
  from calculate_calories_missing_number[OF this True] show ?thesis by simp
next
  case False
  then obtain w h a where "weight u = Some w" "height u = Some h" "age u = Some a" by auto
  from calculate_calories_valid_cases[OF this assms, of fl]
  show ?thesis by auto
qed

lemma calculate_calories_invalid_gender:
  assumes "\<not> valid_gender u"
  shows "calculate_calories fl u = Inl UnboundLocalError"
proof -
  have b: "assign_bmr fl u = Inr None" using assms by (rule assign_bmr_invalid)
  show ?thesis
  proof (cases "valid_activity u")
    case True
    then show ?thesis by (simp add: calculate_calories_def b assign_amr_valid_None ebind_def)
  next
    case False
    then have m: "assign_amr fl u None = Inr None" by (rule assign_amr_invalid)
    show ?thesis
    proof (cases "valid_goal u")
      case True
      then show ?thesis
        by (simp add: calculate_calories_def b m assign_calories_valid_None ebind_def)
    next
      case False
      then show ?thesis
        by (simp add: calculate_calories_def b m assign_calories_invalid ebind_def local_var_def)
    qed
  qed
qed

lemma calculate_calories_invalid_rest:
  assumes b: "assign_bmr fl u = Inr (Some b)" and inv: "\<not> (valid_activity u \<and> valid_goal u)"
  shows "calculate_calories fl u = Inl UnboundLocalError"
proof (cases "valid_activity u")
  case True
  then obtain m where m: "assign_amr fl u (Some b) = Inr (Some m)"
    using assign_amr_valid_Some[of u fl b] by auto
  from True inv have "\<not> valid_goal u" by simp
  then show ?thesis
    by (simp add: calculate_calories_def b m assign_calories_invalid ebind_def local_var_def)
next
  case False
  then have m: "assign_amr fl u (Some b) = Inr None" by (rule assign_amr_invalid)
  show ?thesis
  proof (cases "valid_goal u")
    case True
    then show ?thesis
      by (simp add: calculate_calories_def b m assign_calories_valid_None ebind_def)
  next
    case False
    then show ?thesis
      by (simp add: calculate_calories_def b m assign_calories_invalid ebind_def local_var_def)
  qed
qed

lemma calculate_calories_invalid:
  assumes n: "weight u = Some w" "height u = Some h" "age u = Some a"
    and inv: "\<not> valid_profile u"
  shows "calculate_calories fl u = Inl UnboundLocalError"
proof (cases "valid_gender u")
  case False
  then show ?thesis by (rule calculate_calories_invalid_gender)
next
  case True
  with n obtain b where b: "assign_bmr fl u = Inr (Some b)"
    using assign_bmr_valid[of u w h a fl] by auto
  from True inv have "\<not> (valid_activity u \<and> valid_goal u)" by (simp add: valid_profile_def)
  with b show ?thesis by (rule calculate_calories_invalid_rest)
qed

lemma calculate_calories_Inr_valid:
  assumes r: "calculate_calories fl u = Inr c"
  shows "valid_profile u"
proof (rule ccontr)
  assume inv: "\<not> valid_profile u"
  show False
  proof (cases "valid_gender u")
    case False
    then have "calculate_calories fl u = Inl UnboundLocalError"
      by (rule calculate_calories_invalid_gender)
    with r show False by simp
  next
    case True
    with inv have ag: "\<not> (valid_activity u \<and> valid_goal u)" by (simp add: valid_profile_def)
    show False
    proof (cases "assign_bmr fl u")
      case (Inl e)
      with r show False by (simp add: calculate_calories_def ebind_def)
    next
      case (Inr B)
      show False
      proof (cases B)
        case None
        with Inr have "\<not> valid_gender u" by (simp add: assign_bmr_None)
        with True show False by simp
      next
        case (Some b)
        with Inr ag have "calculate_calories fl u = Inl UnboundLocalError"
          by (simp add: calculate_calories_invalid_rest)
        with r show False by simp
      qed
    qed
  qed
qed

subsection \<open>The stages against the specification's tables\<close>

lemma assign_bmr_spec:
  assumes "gender u = Some g" "g \<in> set spec_genders"
    and "weight u = Some w" "height u = Some h" "age u = Some a"
  shows "assign_bmr fl u = Inr (Some (spec_bmr fl g w h a))"
  using assms by (auto simp: assign_bmr_def bmr_male_def bmr_female_def spec_bmr_def
      spec_genders_def ebind_def num_def)

lemma multiplier_cases:
  assumes "map_of spec_multipliers act = Some m"
  shows "(act = ''Sedentary'' \<and> m = 1.2) \<or> (act = ''Lightly Active'' \<and> m = 1.375) \<or>
         (act = ''Moderately Active'' \<and> m = 1.55) \<or> (act = ''Very Active'' \<and> m = 1.725) \<or>
         (act = ''Extra Active'' \<and> m = 1.9)"
proof -
  from assms have "(act, m) \<in> set spec_multipliers" by (rule map_of_SomeD)
  then show ?thesis unfolding spec_multipliers_def
    by (simp only: list.set insert_iff empty_iff prod.inject simp_thms)
qed

lemma assign_amr_spec:
  assumes "activity_level u = Some act" "map_of spec_multipliers act = Some m"
  shows "assign_amr fl u (Some b) = Inr (Some (float_mul fl b (to_float fl m)))"
  using multiplier_cases[OF assms(2)] assms(1)
  by (elim disjE conjE; hypsubst; simp add: assign_amr_def ebind_def local_var_def)

lemma adjustment_cases:
  assumes "map_of spec_adjustments gl = Some adj"
  shows "(gl = ''Lose Weight'' \<and> adj = - 500) \<or> (gl = ''Maintain Weight'' \<and> adj = 0) \<or>
         (gl = ''Gain Weight'' \<and> adj = 500)"
proof -
  from assms have "(gl, adj) \<in> set spec_adjustments" by (rule map_of_SomeD)
  then show ?thesis unfolding spec_adjustments_def
    by (simp only: list.set insert_iff empty_iff prod.inject simp_thms)
qed

text \<open>
  Where the specification adds the adjustment 0 the code leaves the AMR as it is, and where
  the specification adds -500 the code subtracts 500. On floats this is the same: the AMR
  is itself the result of an operation, and rounding a rounded number changes nothing.
\<close>

lemma to_float_idem:
  assumes idem: "\<forall>x. fl (fl x) = fl x"
  shows "float_add fl (to_float fl x) (Finite 0) = to_float fl x"
  using idem by (simp add: to_float_def)

lemma float_mul_add_zero:
  assumes idem: "\<forall>x. fl (fl x) = fl x"
  shows "float_add fl (float_mul fl b c) (Finite 0) = float_mul fl b c"
proof (cases "\<exists>x y. b = Finite x \<and> c = Finite y")
  case True
  then show ?thesis using to_float_idem[OF idem] by auto
next
  case False
  then show ?thesis by (cases b; cases c) simp_all
qed

lemma float_sub_as_add: "float_sub fl x (Finite k) = float_add fl x (Finite (- k))"
  by (cases x) simp_all

lemma assign_calories_spec:
  assumes idem: "\<forall>x. fl (fl x) = fl x"
    and "goal u = Some gl" "map_of spec_adjustments gl = Some adj"
  shows "assign_calories fl u (Some (float_mul fl b c))
           = Inr (Some (float_add fl (float_mul fl b c) (Finite adj)))"
  using adjustment_cases[OF assms(3)] assms(2) float_mul_add_zero[OF idem, of b c]
  by (elim disjE conjE; hypsubst;
      simp add: assign_calories_def ebind_def local_var_def float_sub_as_add)

lemma calculate_calories_spec_value:
  assumes idem: "\<forall>x. fl (fl x) = fl x"
    and g: "gender u = Some g" "g \<in> set spec_genders"
    and act: "activity_level u = Some act" "map_of spec_multipliers act = Some m"
    and gl: "goal u = Some gl" "map_of spec_adjustments gl = Some adj"
    and n: "weight u = Some w" "height u = Some h" "age u = Some a"
  shows "calculate_calories fl u = py_round_float (spec_value fl g w h a m adj)"
  by (simp add: calculate_calories_def assign_bmr_spec[OF g n] assign_amr_spec[OF act]
      assign_calories_spec[OF idem gl] ebind_def local_var_def spec_value_def)

subsection \<open>Rounding\<close>

lemma py_round_near:
  assumes "of_int n - 1/2 < x" "x < of_int n + 1/2"
  shows "py_round x = n"
proof -
  have "\<lfloor>x\<rfloor> = n \<or> \<lfloor>x\<rfloor> = n - 1" using assms by linarith
  then show ?thesis
  proof
    assume f: "\<lfloor>x\<rfloor> = n"
    then have "x - of_int n < 1/2" using assms by simp
    with f show ?thesis by (simp add: py_round_def Let_def)
  next
    assume f: "\<lfloor>x\<rfloor> = n - 1"
    then have "1/2 < x - of_int (n - 1)" using assms by simp
    with f show ?thesis by (simp add: py_round_def Let_def)
  qed
qed

lemma py_round_nearest: "\<bar>of_int (py_round x) - x\<bar> \<le> 1/2"
proof -
  have "of_int \<lfloor>x\<rfloor> \<le> x" "x < of_int \<lfloor>x\<rfloor> + 1" by linarith+
  then show ?thesis by (auto simp: py_round_def Let_def abs_le_iff)
qed

lemma py_round_tie_even:
  assumes "\<bar>of_int (py_round x) - x\<bar> = 1/2"
  shows "even (py_round x)"
proof -
  have f: "of_int \<lfloor>x\<rfloor> \<le> x" "x < of_int \<lfloor>x\<rfloor> + 1" by linarith+
  show ?thesis
  proof (cases "x - of_int \<lfloor>x\<rfloor> < 1/2")
    case True
    then have "py_round x = \<lfloor>x\<rfloor>" by (simp add: py_round_def Let_def)
    with assms have "\<bar>of_int \<lfloor>x\<rfloor> - x\<bar> = 1/2" by simp
    with True f have False by linarith
    then show ?thesis ..
  next
    case False
    note nlt = this
    show ?thesis
    proof (cases "1/2 < x - of_int \<lfloor>x\<rfloor>")
      case True
      then have "py_round x = \<lfloor>x\<rfloor> + 1" using nlt by (simp add: py_round_def Let_def)
      with assms have "\<bar>of_int (\<lfloor>x\<rfloor> + 1) - x\<bar> = 1/2" by simp
      with True f have False by simp
      then show ?thesis ..
    next
      case False
      then show ?thesis using nlt by (simp add: py_round_def Let_def)
    qed
  qed
qed

lemma py_round_float_spec:
  "(case x of
      Finite r \<Rightarrow> \<exists>n. py_round_float x = Inr n \<and> \<bar>of_int n - r\<bar> \<le> 1/2 \<and>
                    (\<bar>of_int n - r\<bar> = 1/2 \<longrightarrow> even n)
    | PosInf \<Rightarrow> py_round_float x = Inl OverflowError
    | NegInf \<Rightarrow> py_round_float x = Inl OverflowError
    | NaN \<Rightarrow> py_round_float x = Inl ValueError)"
proof (cases x)
  case (Finite r)
  then show ?thesis
    using py_round_nearest[of r] py_round_tie_even[of r]
    by (simp only: pyfloat.case py_round_float_def) blast
qed (simp_all add: py_round_float_def)

subsection \<open>Distance from the exact value\<close>

lemma max_float_large: "(10 ^ 6 :: rat) \<le> max_float"
  by (simp add: max_float_def)

lemma near_trans:
  fixes a b c :: rat
  shows "\<bar>a - b\<bar> \<le> d1 \<Longrightarrow> \<bar>b - c\<bar> \<le> d2 \<Longrightarrow> d1 + d2 \<le> d \<Longrightarrow> \<bar>a - c\<bar> \<le> d"
  by linarith

lemma near_bound:
  fixes a b :: rat
  shows "\<bar>a - b\<bar> \<le> d \<Longrightarrow> \<bar>b\<bar> \<le> B \<Longrightarrow> B + d \<le> B' \<Longrightarrow> \<bar>a\<bar> \<le> B'"
  by linarith

lemma near_add:
  fixes s x y :: rat
  shows "\<bar>s - (x + y)\<bar> \<le> d0 \<Longrightarrow> \<bar>x - X\<bar> \<le> d1 \<Longrightarrow> \<bar>y - Y\<bar> \<le> d2 \<Longrightarrow> d0 + d1 + d2 \<le> d \<Longrightarrow>
         \<bar>s - (X + Y)\<bar> \<le> d"
  by linarith

lemma near_sub:
  fixes s x y :: rat
  shows "\<bar>s - (x - y)\<bar> \<le> d0 \<Longrightarrow> \<bar>x - X\<bar> \<le> d1 \<Longrightarrow> \<bar>y - Y\<bar> \<le> d2 \<Longrightarrow> d0 + d1 + d2 \<le> d \<Longrightarrow>
         \<bar>s - (X - Y)\<bar> \<le> d"
  by linarith

lemma bound_add:
  fixes x y :: rat
  shows "\<bar>x\<bar> \<le> bx \<Longrightarrow> \<bar>y\<bar> \<le> by \<Longrightarrow> bx + by \<le> B \<Longrightarrow> \<bar>x + y\<bar> \<le> B"
  by linarith

lemma bound_sub:
  fixes x y :: rat
  shows "\<bar>x\<bar> \<le> bx \<Longrightarrow> \<bar>y\<bar> \<le> by \<Longrightarrow> bx + by \<le> B \<Longrightarrow> \<bar>x - y\<bar> \<le> B"
  by linarith

lemma fl_bounded:
  assumes rel: "\<forall>x. \<bar>fl x - x\<bar> \<le> \<bar>x\<bar> / 2 ^ 53 + 1 / 2 ^ 1075"
    and x: "\<bar>x\<bar> \<le> 10 ^ 5"
  shows "to_float fl x = Finite (fl x) \<and> \<bar>fl x - x\<bar> \<le> 12 / 10 ^ 12"
proof -
  from rel have "\<bar>fl x - x\<bar> \<le> \<bar>x\<bar> / 2 ^ 53 + 1 / 2 ^ 1075" by blast
  also have "\<dots> \<le> 10 ^ 5 / 2 ^ 53 + 1 / 2 ^ 1075"
    using x by (intro add_mono divide_right_mono) simp_all
  also have "\<dots> \<le> (12 / 10 ^ 12 :: rat)" by simp
  finally have e: "\<bar>fl x - x\<bar> \<le> 12 / 10 ^ 12" .
  from e x have "\<bar>fl x\<bar> \<le> 10 ^ 6" by (rule near_bound) simp
  with max_float_large have "\<not> max_float < fl x" "\<not> fl x < - max_float" by linarith+
  then have "to_float fl x = Finite (fl x)" by (simp add: to_float_def)
  with e show ?thesis by simp
qed

lemma near_mult:
  fixes x y X Y :: rat
  assumes "\<bar>x - X\<bar> \<le> dx" "\<bar>y - Y\<bar> \<le> dy" "\<bar>x\<bar> \<le> bx" "\<bar>Y\<bar> \<le> bY"
  shows "\<bar>x * y - X * Y\<bar> \<le> bx * dy + bY * dx"
proof -
  have "x * y - X * Y = x * (y - Y) + Y * (x - X)" by (simp add: algebra_simps)
  then have "\<bar>x * y - X * Y\<bar> \<le> \<bar>x * (y - Y)\<bar> + \<bar>Y * (x - X)\<bar>"
    by (simp only: abs_triangle_ineq)
  also have "\<dots> = \<bar>x\<bar> * \<bar>y - Y\<bar> + \<bar>Y\<bar> * \<bar>x - X\<bar>" by (simp only: abs_mult)
  also have "\<dots> \<le> bx * dy + bY * dx"
    using assms by (intro add_mono mult_mono) (auto intro: order_trans[OF abs_ge_zero])
  finally show ?thesis .
qed

lemma bound_mult:
  fixes x y :: rat
  assumes "\<bar>x\<bar> \<le> bx" "\<bar>y\<bar> \<le> by"
  shows "\<bar>x * y\<bar> \<le> bx * by"
proof -
  have "\<bar>x * y\<bar> = \<bar>x\<bar> * \<bar>y\<bar>" by (simp only: abs_mult)
  also have "\<dots> \<le> bx * by"
    using assms by (intro mult_mono) (auto intro: order_trans[OF abs_ge_zero])
  finally show ?thesis .
qed

lemma literal_times_near:
  assumes rel: "\<forall>x. \<bar>fl x - x\<bar> \<le> \<bar>x\<bar> / 2 ^ 53 + 1 / 2 ^ 1075"
    and c: "\<bar>c\<bar> \<le> 14" and v: "\<bar>v\<bar> \<le> 1000"
  shows "\<exists>t. float_mul fl (to_float fl c) (Finite v) = Finite t \<and>
             \<bar>t - c * v\<bar> \<le> 13 / 10 ^ 9 \<and> \<bar>t\<bar> \<le> 14001"
proof -
  from c have "\<bar>c\<bar> \<le> 10 ^ 5" by simp
  from fl_bounded[OF rel this]
  have k: "to_float fl c = Finite (fl c)" and ke: "\<bar>fl c - c\<bar> \<le> 12 / 10 ^ 12" by simp_all
  from ke c have kb: "\<bar>fl c\<bar> \<le> 15" by (rule near_bound) simp
  have "\<bar>v - v\<bar> \<le> 0" by simp
  from near_mult[OF ke this kb v]
  have pe: "\<bar>fl c * v - c * v\<bar> \<le> 12 / 10 ^ 9" by simp
  from bound_mult[OF c v] have cb: "\<bar>c * v\<bar> \<le> 14000" by simp
  from pe cb have "\<bar>fl c * v\<bar> \<le> 10 ^ 5" by (rule near_bound) simp
  from fl_bounded[OF rel this]
  have t: "to_float fl (fl c * v) = Finite (fl (fl c * v))"
    and te: "\<bar>fl (fl c * v) - fl c * v\<bar> \<le> 12 / 10 ^ 12" by simp_all
  from te pe have e: "\<bar>fl (fl c * v) - c * v\<bar> \<le> 13 / 10 ^ 9" by (rule near_trans) simp
  from e cb have "\<bar>fl (fl c * v)\<bar> \<le> 14001" by (rule near_bound) simp
  with e show ?thesis using k t by simp
qed

lemma bmr_near:
  assumes rel: "\<forall>x. \<bar>fl x - x\<bar> \<le> \<bar>x\<bar> / 2 ^ 53 + 1 / 2 ^ 1075"
    and c: "\<bar>c0\<bar> \<le> 700" "\<bar>c1\<bar> \<le> 14" "\<bar>c2\<bar> \<le> 14" "\<bar>c3\<bar> \<le> 14"
    and v: "\<bar>w\<bar> \<le> 1000" "\<bar>h\<bar> \<le> 1000" "\<bar>a\<bar> \<le> 1000"
  shows "\<exists>b. float_sub fl
               (float_add fl
                 (float_add fl (to_float fl c0) (float_mul fl (to_float fl c1) (Finite w)))
                 (float_mul fl (to_float fl c2) (Finite h)))
               (float_mul fl (to_float fl c3) (Finite a)) = Finite b \<and>
             \<bar>b - (c0 + c1 * w + c2 * h - c3 * a)\<bar> \<le> 42 / 10 ^ 9 \<and> \<bar>b\<bar> \<le> 43000"
proof -
  from literal_times_near[OF rel c(2) v(1)] obtain t1 where
    t1: "float_mul fl (to_float fl c1) (Finite w) = Finite t1"
    and t1e: "\<bar>t1 - c1 * w\<bar> \<le> 13 / 10 ^ 9" and t1b: "\<bar>t1\<bar> \<le> 14001" by blast
  from literal_times_near[OF rel c(3) v(2)] obtain t2 where
    t2: "float_mul fl (to_float fl c2) (Finite h) = Finite t2"
    and t2e: "\<bar>t2 - c2 * h\<bar> \<le> 13 / 10 ^ 9" and t2b: "\<bar>t2\<bar> \<le> 14001" by blast
  from literal_times_near[OF rel c(4) v(3)] obtain t3 where
    t3: "float_mul fl (to_float fl c3) (Finite a) = Finite t3"
    and t3e: "\<bar>t3 - c3 * a\<bar> \<le> 13 / 10 ^ 9" and t3b: "\<bar>t3\<bar> \<le> 14001" by blast
  from c(1) have "\<bar>c0\<bar> \<le> 10 ^ 5" by simp
  from fl_bounded[OF rel this]
  have k0: "to_float fl c0 = Finite (fl c0)" and k0e: "\<bar>fl c0 - c0\<bar> \<le> 12 / 10 ^ 12"
    by simp_all
  from k0e c(1) have k0b: "\<bar>fl c0\<bar> \<le> 701" by (rule near_bound) simp
  define s1 where "s1 = fl (fl c0 + t1)"
  from k0b t1b have s1x: "\<bar>fl c0 + t1\<bar> \<le> 14702" by (rule bound_add) simp
  then have "\<bar>fl c0 + t1\<bar> \<le> 10 ^ 5" by simp
  from fl_bounded[OF rel this]
  have s1: "to_float fl (fl c0 + t1) = Finite s1" and s1r: "\<bar>s1 - (fl c0 + t1)\<bar> \<le> 12 / 10 ^ 12"
    by (simp_all add: s1_def)
  from s1r k0e t1e have s1e: "\<bar>s1 - (c0 + c1 * w)\<bar> \<le> 14 / 10 ^ 9" by (rule near_add) simp
  from s1r s1x have s1b: "\<bar>s1\<bar> \<le> 14703" by (rule near_bound) simp
  define s2 where "s2 = fl (s1 + t2)"
  from s1b t2b have s2x: "\<bar>s1 + t2\<bar> \<le> 28704" by (rule bound_add) simp
  then have "\<bar>s1 + t2\<bar> \<le> 10 ^ 5" by simp
  from fl_bounded[OF rel this]
  have s2: "to_float fl (s1 + t2) = Finite s2" and s2r: "\<bar>s2 - (s1 + t2)\<bar> \<le> 12 / 10 ^ 12"
    by (simp_all add: s2_def)
  from s2r s1e t2e have s2e: "\<bar>s2 - (c0 + c1 * w + c2 * h)\<bar> \<le> 28 / 10 ^ 9"
    by (rule near_add) simp
  from s2r s2x have s2b: "\<bar>s2\<bar> \<le> 28705" by (rule near_bound) simp
  define b where "b = fl (s2 - t3)"
  from s2b t3b have bx: "\<bar>s2 - t3\<bar> \<le> 42706" by (rule bound_sub) simp
  then have "\<bar>s2 - t3\<bar> \<le> 10 ^ 5" by simp
  from fl_bounded[OF rel this]
  have b: "to_float fl (s2 - t3) = Finite b" and br: "\<bar>b - (s2 - t3)\<bar> \<le> 12 / 10 ^ 12"
    by (simp_all add: b_def)
  from br s2e t3e have be: "\<bar>b - (c0 + c1 * w + c2 * h - c3 * a)\<bar> \<le> 42 / 10 ^ 9"
    by (rule near_sub) simp
  from br bx have bb: "\<bar>b\<bar> \<le> 43000" by (rule near_bound) simp
  have "float_sub fl
          (float_add fl
            (float_add fl (to_float fl c0) (float_mul fl (to_float fl c1) (Finite w)))
            (float_mul fl (to_float fl c2) (Finite h)))
          (float_mul fl (to_float fl c3) (Finite a)) = Finite b"
    by (simp only: k0 t1 t2 t3 float_add.simps float_sub.simps s1 s2 b)
  with be bb show ?thesis by blast
qed

lemma spec_bmr_near:
  assumes rel: "\<forall>x. \<bar>fl x - x\<bar> \<le> \<bar>x\<bar> / 2 ^ 53 + 1 / 2 ^ 1075"
    and v: "\<bar>w\<bar> \<le> 1000" "\<bar>h\<bar> \<le> 1000" "\<bar>a\<bar> \<le> 1000"
  shows "\<exists>b. spec_bmr fl g w h a = Finite b \<and>
             \<bar>b - exact_bmr g w h a\<bar> \<le> 42 / 10 ^ 9 \<and> \<bar>b\<bar> \<le> 43000"
proof (cases "g = ''Male''")
  case True
  have "\<bar>66.47 :: rat\<bar> \<le> 700" "\<bar>13.75 :: rat\<bar> \<le> 14" "\<bar>5.003 :: rat\<bar> \<le> 14"
    "\<bar>6.755 :: rat\<bar> \<le> 14" by simp_all
  from bmr_near[OF rel this v] show ?thesis
    unfolding spec_bmr_def exact_bmr_def if_P[OF True] .
next
  case False
  have "\<bar>655.1 :: rat\<bar> \<le> 700" "\<bar>9.563 :: rat\<bar> \<le> 14" "\<bar>1.85 :: rat\<bar> \<le> 14"
    "\<bar>4.676 :: rat\<bar> \<le> 14" by simp_all
  from bmr_near[OF rel this v] show ?thesis
    unfolding spec_bmr_def exact_bmr_def if_not_P[OF False] .
qed

lemma amr_near:
  assumes rel: "\<forall>x. \<bar>fl x - x\<bar> \<le> \<bar>x\<bar> / 2 ^ 53 + 1 / 2 ^ 1075"
    and be: "\<bar>b - B\<bar> \<le> 42 / 10 ^ 9" and bb: "\<bar>b\<bar> \<le> 43000"
    and m: "map_of spec_multipliers act = Some m"
  shows "\<exists>y. float_mul fl (Finite b) (to_float fl m) = Finite y \<and>
             \<bar>y - B * m\<bar> \<le> 61 / 10 ^ 8 \<and> \<bar>y\<bar> \<le> 87000"
proof -
  from multiplier_cases[OF m] have mb: "\<bar>m\<bar> \<le> 2"
    by (elim disjE conjE; hypsubst) simp_all
  then have "\<bar>m\<bar> \<le> 10 ^ 5" by simp
  from fl_bounded[OF rel this]
  have k: "to_float fl m = Finite (fl m)" and ke: "\<bar>fl m - m\<bar> \<le> 12 / 10 ^ 12" by simp_all
  from ke mb have kb: "\<bar>fl m\<bar> \<le> 201 / 100" by (rule near_bound) simp
  from near_mult[OF be ke bb mb]
  have pe: "\<bar>b * fl m - B * m\<bar> \<le> 60 / 10 ^ 8" by simp
  from bound_mult[OF bb kb] have pb: "\<bar>b * fl m\<bar> \<le> 86430" by simp
  then have "\<bar>b * fl m\<bar> \<le> 10 ^ 5" by simp
  from fl_bounded[OF rel this]
  have y: "to_float fl (b * fl m) = Finite (fl (b * fl m))"
    and ye: "\<bar>fl (b * fl m) - b * fl m\<bar> \<le> 12 / 10 ^ 12" by simp_all
  from ye pe have e: "\<bar>fl (b * fl m) - B * m\<bar> \<le> 61 / 10 ^ 8" by (rule near_trans) simp
  from ye pb have "\<bar>fl (b * fl m)\<bar> \<le> 87000" by (rule near_bound) simp
  with e show ?thesis using k y by simp
qed

lemma assign_calories_near:
  assumes rel: "\<forall>x. \<bar>fl x - x\<bar> \<le> \<bar>x\<bar> / 2 ^ 53 + 1 / 2 ^ 1075"
    and ye: "\<bar>y - Y\<bar> \<le> 61 / 10 ^ 8" and yb: "\<bar>y\<bar> \<le> 87000"
    and gl: "goal u = Some gl" "map_of spec_adjustments gl = Some adj"
  shows "\<exists>z. assign_calories fl u (Some (Finite y)) = Inr (Some (Finite z)) \<and>
             \<bar>z - (Y + adj)\<bar> \<le> 1 / 10 ^ 6"
proof -
  have k: "\<bar>500 - (500 :: rat)\<bar> \<le> 0" "\<bar>500 :: rat\<bar> \<le> 500" by simp_all
  from yb k(2) have "\<bar>y - 500\<bar> \<le> 10 ^ 5" by (rule bound_sub) simp
  from fl_bounded[OF rel this]
  have l: "to_float fl (y - 500) = Finite (fl (y - 500))"
    and lr: "\<bar>fl (y - 500) - (y - 500)\<bar> \<le> 12 / 10 ^ 12" by simp_all
  from lr ye k(1) have le: "\<bar>fl (y - 500) - (Y - 500)\<bar> \<le> 1 / 10 ^ 6" by (rule near_sub) simp
  from yb k(2) have "\<bar>y + 500\<bar> \<le> 10 ^ 5" by (rule bound_add) simp
  from fl_bounded[OF rel this]
  have g: "to_float fl (y + 500) = Finite (fl (y + 500))"
    and gr: "\<bar>fl (y + 500) - (y + 500)\<bar> \<le> 12 / 10 ^ 12" by simp_all
  from gr ye k(1) have ge: "\<bar>fl (y + 500) - (Y + 500)\<bar> \<le> 1 / 10 ^ 6" by (rule near_add) simp
  have "\<bar>y - y\<bar> \<le> 0" by simp
  from this ye have me: "\<bar>y - Y\<bar> \<le> 1 / 10 ^ 6" by (rule near_trans) simp
  from adjustment_cases[OF gl(2)] show ?thesis
  proof (elim disjE conjE)
    assume "gl = ''Lose Weight''" "adj = - 500"
    then show ?thesis
      using gl(1) l le by (simp add: assign_calories_def ebind_def local_var_def)
  next
    assume "gl = ''Maintain Weight''" "adj = 0"
    then show ?thesis
      using gl(1) me by (simp add: assign_calories_def ebind_def local_var_def)
  next
    assume "gl = ''Gain Weight''" "adj = 500"
    then show ?thesis
      using gl(1) g ge by (simp add: assign_calories_def ebind_def local_var_def)
  qed
qed

lemma calculate_calories_near:
  assumes rel: "\<forall>x. \<bar>fl x - x\<bar> \<le> \<bar>x\<bar> / 2 ^ 53 + 1 / 2 ^ 1075"
    and g: "gender u = Some g" "g \<in> set spec_genders"
    and act: "activity_level u = Some act" "map_of spec_multipliers act = Some m"
    and gl: "goal u = Some gl" "map_of spec_adjustments gl = Some adj"
    and n: "weight u = Some w" "height u = Some h" "age u = Some a"
    and v: "\<bar>w\<bar> \<le> 1000" "\<bar>h\<bar> \<le> 1000" "\<bar>a\<bar> \<le> 1000"
  shows "\<exists>k. calculate_calories fl u = Inr k \<and>
             \<bar>of_int k - (exact_bmr g w h a * m + adj)\<bar> \<le> 1 / 2 + 1 / 10 ^ 6"
proof -
  from spec_bmr_near[OF rel v, of g] obtain b where
    b: "spec_bmr fl g w h a = Finite b" and be: "\<bar>b - exact_bmr g w h a\<bar> \<le> 42 / 10 ^ 9"
    and bb: "\<bar>b\<bar> \<le> 43000" by blast
  from amr_near[OF rel be bb act(2)] obtain y where
    y: "float_mul fl (Finite b) (to_float fl m) = Finite y"
    and ye: "\<bar>y - exact_bmr g w h a * m\<bar> \<le> 61 / 10 ^ 8" and yb: "\<bar>y\<bar> \<le> 87000" by blast
  from assign_calories_near[OF rel ye yb gl] obtain z where
    z: "assign_calories fl u (Some (Finite y)) = Inr (Some (Finite z))"
    and ze: "\<bar>z - (exact_bmr g w h a * m + adj)\<bar> \<le> 1 / 10 ^ 6" by blast
  have "calculate_calories fl u = Inr (py_round z)"
    by (simp add: calculate_calories_def assign_bmr_spec[OF g n] assign_amr_spec[OF act] b y z
        ebind_def local_var_def py_round_float_def)
  moreover from py_round_nearest[of z] ze
  have "\<bar>of_int (py_round z) - (exact_bmr g w h a * m + adj)\<bar> \<le> 1 / 2 + 1 / 10 ^ 6"
    by (rule near_trans) simp
  ultimately show ?thesis by blast
qed

text \<open>
  Round-to-nearest on binary64 changes a number between 1 and 10000 by at most the
  fraction \<open>2\<^sup>-\<^sup>5\<^sup>3\<close> of its size, hence by less than \<open>10\<^sup>-\<^sup>1\<^sup>1\<close>, and the result
  is far from the largest double.
\<close>

lemma fl_step:
  assumes rel: "\<forall>x. 1 \<le> \<bar>x\<bar> \<and> \<bar>x\<bar> \<le> 10000 \<longrightarrow> \<bar>fl x - x\<bar> \<le> \<bar>x\<bar> / 2 ^ 53"
    and x: "lo \<le> x \<and> x \<le> hi" and lo: "1 \<le> lo" and hi: "hi \<le> (10000::rat)"
  shows "lo - 1 / 10 ^ 11 \<le> fl x \<and> fl x \<le> hi + 1 / 10 ^ 11"
proof -
  from x lo hi have a: "1 \<le> \<bar>x\<bar> \<and> \<bar>x\<bar> \<le> 10000" by simp
  with rel have "\<bar>fl x - x\<bar> \<le> \<bar>x\<bar> / 2 ^ 53" by blast
  also from a have "\<bar>x\<bar> / 2 ^ 53 \<le> 10000 / 2 ^ 53" by (simp add: divide_right_mono)
  also have "(10000::rat) / 2 ^ 53 \<le> 1 / 10 ^ 11" by simp
  finally have "\<bar>fl x - x\<bar> \<le> 1 / 10 ^ 11" .
  then have "fl x - x \<le> 1 / 10 ^ 11 \<and> x - fl x \<le> 1 / 10 ^ 11"
    by (simp only: abs_le_iff minus_diff_eq)
  with x show ?thesis by linarith
qed

lemma to_float_step:
  assumes rel: "\<forall>x. 1 \<le> \<bar>x\<bar> \<and> \<bar>x\<bar> \<le> 10000 \<longrightarrow> \<bar>fl x - x\<bar> \<le> \<bar>x\<bar> / 2 ^ 53"
    and x: "lo \<le> x \<and> x \<le> hi" and lo: "1 \<le> lo" and hi: "hi \<le> (10000::rat)"
  shows "to_float fl x = Finite (fl x)"
proof -
  from fl_step[OF assms] lo hi have "0 \<le> fl x \<and> fl x \<le> 10 ^ 6" by simp
  with max_float_large have "\<not> max_float < fl x" "\<not> fl x < - max_float" by linarith+
  then show ?thesis by (simp add: to_float_def)
qed

text \<open>The two worked examples of the specification, with an interval for every operation.\<close>

lemma male_example_value:
  assumes rel: "\<forall>x. 1 \<le> \<bar>x\<bar> \<and> \<bar>x\<bar> \<le> 10000 \<longrightarrow> \<bar>fl x - x\<bar> \<le> \<bar>x\<bar> / 2 ^ 53"
  shows "py_round_float (float_mul fl (spec_bmr fl ''Male'' 70 175 30) (to_float fl 1.55))
           = Inr 2638"
proof -
  define c0 where "c0 = fl 66.47"
  have c0: "66.469999999 \<le> c0 \<and> c0 \<le> 66.470000001"
    unfolding c0_def using fl_step[OF rel, of "66.47" "66.47" "66.47"] by simp
  have c0F: "to_float fl 66.47 = Finite c0"
    unfolding c0_def using to_float_step[OF rel, of "66.47" "66.47" "66.47"] by simp
  define c1 where "c1 = fl 13.75"
  have c1: "13.749999999 \<le> c1 \<and> c1 \<le> 13.750000001"
    unfolding c1_def using fl_step[OF rel, of "13.75" "13.75" "13.75"] by simp
  have c1F: "to_float fl 13.75 = Finite c1"
    unfolding c1_def using to_float_step[OF rel, of "13.75" "13.75" "13.75"] by simp
  define c2 where "c2 = fl 5.003"
  have c2: "5.002999999 \<le> c2 \<and> c2 \<le> 5.003000001"
    unfolding c2_def using fl_step[OF rel, of "5.003" "5.003" "5.003"] by simp
  have c2F: "to_float fl 5.003 = Finite c2"
    unfolding c2_def using to_float_step[OF rel, of "5.003" "5.003" "5.003"] by simp
  define c3 where "c3 = fl 6.755"
  have c3: "6.754999999 \<le> c3 \<and> c3 \<le> 6.755000001"
    unfolding c3_def using fl_step[OF rel, of "6.755" "6.755" "6.755"] by simp
  have c3F: "to_float fl 6.755 = Finite c3"
    unfolding c3_def using to_float_step[OF rel, of "6.755" "6.755" "6.755"] by simp
  define m where "m = fl 1.55"
  have m: "1.549999999 \<le> m \<and> m \<le> 1.550000001"
    unfolding m_def using fl_step[OF rel, of "1.55" "1.55" "1.55"] by simp
  have mF: "to_float fl 1.55 = Finite m"
    unfolding m_def using to_float_step[OF rel, of "1.55" "1.55" "1.55"] by simp
  have t1x: "962.49999993 \<le> c1 * 70 \<and> c1 * 70 \<le> 962.50000007"
    using c1 by simp
  define t1 where "t1 = fl (c1 * 70)"
  have t1: "962.499999929 \<le> t1 \<and> t1 \<le> 962.500000071"
    unfolding t1_def using fl_step[OF rel t1x] by simp
  have t1F: "to_float fl (c1 * 70) = Finite t1"
    unfolding t1_def using to_float_step[OF rel t1x] by simp
  have s1x: "1028.969999928 \<le> c0 + t1 \<and> c0 + t1 \<le> 1028.970000072"
    using c0 t1 by simp
  define s1 where "s1 = fl (c0 + t1)"
  have s1: "1028.969999927 \<le> s1 \<and> s1 \<le> 1028.970000073"
    unfolding s1_def using fl_step[OF rel s1x] by simp
  have s1F: "to_float fl (c0 + t1) = Finite s1"
    unfolding s1_def using to_float_step[OF rel s1x] by simp
  have t2x: "875.524999825 \<le> c2 * 175 \<and> c2 * 175 \<le> 875.525000175"
    using c2 by simp
  define t2 where "t2 = fl (c2 * 175)"
  have t2: "875.524999824 \<le> t2 \<and> t2 \<le> 875.525000176"
    unfolding t2_def using fl_step[OF rel t2x] by simp
  have t2F: "to_float fl (c2 * 175) = Finite t2"
    unfolding t2_def using to_float_step[OF rel t2x] by simp
  have s2x: "1904.494999751 \<le> s1 + t2 \<and> s1 + t2 \<le> 1904.495000249"
    using s1 t2 by simp
  define s2 where "s2 = fl (s1 + t2)"
  have s2: "1904.49499975 \<le> s2 \<and> s2 \<le> 1904.49500025"
    unfolding s2_def using fl_step[OF rel s2x] by simp
  have s2F: "to_float fl (s1 + t2) = Finite s2"
    unfolding s2_def using to_float_step[OF rel s2x] by simp
  have t3x: "202.64999997 \<le> c3 * 30 \<and> c3 * 30 \<le> 202.65000003"
    using c3 by simp
  define t3 where "t3 = fl (c3 * 30)"
  have t3: "202.649999969 \<le> t3 \<and> t3 \<le> 202.650000031"
    unfolding t3_def using fl_step[OF rel t3x] by simp
  have t3F: "to_float fl (c3 * 30) = Finite t3"
    unfolding t3_def using to_float_step[OF rel t3x] by simp
  have bmrx: "1701.844999719 \<le> s2 - t3 \<and> s2 - t3 \<le> 1701.845000281"
    using s2 t3 by simp
  define bmr where "bmr = fl (s2 - t3)"
  have bmr: "1701.844999718 \<le> bmr \<and> bmr \<le> 1701.845000282"
    unfolding bmr_def using fl_step[OF rel bmrx] by simp
  have bmrF: "to_float fl (s2 - t3) = Finite bmr"
    unfolding bmr_def using to_float_step[OF rel bmrx] by simp
  have amrx: "2637.859747861 \<le> bmr * m \<and> bmr * m \<le> 2637.859752139"
    using mult_mono[of "1701.844999718" bmr "1.549999999" m] mult_mono[of bmr "1701.845000282" m "1.550000001"] bmr m by simp
  define amr where "amr = fl (bmr * m)"
  have amr: "2637.85974786 \<le> amr \<and> amr \<le> 2637.85975214"
    unfolding amr_def using fl_step[OF rel amrx] by simp
  have amrF: "to_float fl (bmr * m) = Finite amr"
    unfolding amr_def using to_float_step[OF rel amrx] by simp
  have r: "py_round amr = 2638"
    using amr by (intro py_round_near) simp_all
  show ?thesis
    unfolding spec_bmr_def
    by (simp only: if_P[OF refl] c0F c1F c2F c3F mF t1F s1F t2F s2F t3F bmrF amrF
        float_mul.simps float_add.simps float_sub.simps py_round_float_def pyfloat.case r)
qed

lemma female_example_value:
  assumes rel: "\<forall>x. 1 \<le> \<bar>x\<bar> \<and> \<bar>x\<bar> \<le> 10000 \<longrightarrow> \<bar>fl x - x\<bar> \<le> \<bar>x\<bar> / 2 ^ 53"
  shows "py_round_float
           (float_sub fl (float_mul fl (spec_bmr fl ''Female'' 70 175 30) (to_float fl 1.2))
             (Finite 500)) = Inr 1310"
proof -
  define c0 where "c0 = fl 655.1"
  have c0: "655.099999999 \<le> c0 \<and> c0 \<le> 655.100000001"
    unfolding c0_def using fl_step[OF rel, of "655.1" "655.1" "655.1"] by simp
  have c0F: "to_float fl 655.1 = Finite c0"
    unfolding c0_def using to_float_step[OF rel, of "655.1" "655.1" "655.1"] by simp
  define c1 where "c1 = fl 9.563"
  have c1: "9.562999999 \<le> c1 \<and> c1 \<le> 9.563000001"
    unfolding c1_def using fl_step[OF rel, of "9.563" "9.563" "9.563"] by simp
  have c1F: "to_float fl 9.563 = Finite c1"
    unfolding c1_def using to_float_step[OF rel, of "9.563" "9.563" "9.563"] by simp
  define c2 where "c2 = fl 1.85"
  have c2: "1.849999999 \<le> c2 \<and> c2 \<le> 1.850000001"
    unfolding c2_def using fl_step[OF rel, of "1.85" "1.85" "1.85"] by simp
  have c2F: "to_float fl 1.85 = Finite c2"
    unfolding c2_def using to_float_step[OF rel, of "1.85" "1.85" "1.85"] by simp
  define c3 where "c3 = fl 4.676"
  have c3: "4.675999999 \<le> c3 \<and> c3 \<le> 4.676000001"
    unfolding c3_def using fl_step[OF rel, of "4.676" "4.676" "4.676"] by simp
  have c3F: "to_float fl 4.676 = Finite c3"
    unfolding c3_def using to_float_step[OF rel, of "4.676" "4.676" "4.676"] by simp
  define m where "m = fl 1.2"
  have m: "1.199999999 \<le> m \<and> m \<le> 1.200000001"
    unfolding m_def using fl_step[OF rel, of "1.2" "1.2" "1.2"] by simp
  have mF: "to_float fl 1.2 = Finite m"
    unfolding m_def using to_float_step[OF rel, of "1.2" "1.2" "1.2"] by simp
  have t1x: "669.40999993 \<le> c1 * 70 \<and> c1 * 70 \<le> 669.41000007"
    using c1 by simp
  define t1 where "t1 = fl (c1 * 70)"
  have t1: "669.409999929 \<le> t1 \<and> t1 \<le> 669.410000071"
    unfolding t1_def using fl_step[OF rel t1x] by simp
  have t1F: "to_float fl (c1 * 70) = Finite t1"
    unfolding t1_def using to_float_step[OF rel t1x] by simp
  have s1x: "1324.509999928 \<le> c0 + t1 \<and> c0 + t1 \<le> 1324.510000072"
    using c0 t1 by simp
  define s1 where "s1 = fl (c0 + t1)"
  have s1: "1324.509999927 \<le> s1 \<and> s1 \<le> 1324.510000073"
    unfolding s1_def using fl_step[OF rel s1x] by simp
  have s1F: "to_float fl (c0 + t1) = Finite s1"
    unfolding s1_def using to_float_step[OF rel s1x] by simp
  have t2x: "323.749999825 \<le> c2 * 175 \<and> c2 * 175 \<le> 323.750000175"
    using c2 by simp
  define t2 where "t2 = fl (c2 * 175)"
  have t2: "323.749999824 \<le> t2 \<and> t2 \<le> 323.750000176"
    unfolding t2_def using fl_step[OF rel t2x] by simp
  have t2F: "to_float fl (c2 * 175) = Finite t2"
    unfolding t2_def using to_float_step[OF rel t2x] by simp
  have s2x: "1648.259999751 \<le> s1 + t2 \<and> s1 + t2 \<le> 1648.260000249"
    using s1 t2 by simp
  define s2 where "s2 = fl (s1 + t2)"
  have s2: "1648.25999975 \<le> s2 \<and> s2 \<le> 1648.26000025"
    unfolding s2_def using fl_step[OF rel s2x] by simp
  have s2F: "to_float fl (s1 + t2) = Finite s2"
    unfolding s2_def using to_float_step[OF rel s2x] by simp
  have t3x: "140.27999997 \<le> c3 * 30 \<and> c3 * 30 \<le> 140.28000003"
    using c3 by simp
  define t3 where "t3 = fl (c3 * 30)"
  have t3: "140.279999969 \<le> t3 \<and> t3 \<le> 140.280000031"
    unfolding t3_def using fl_step[OF rel t3x] by simp
  have t3F: "to_float fl (c3 * 30) = Finite t3"
    unfolding t3_def using to_float_step[OF rel t3x] by simp
  have bmrx: "1507.979999719 \<le> s2 - t3 \<and> s2 - t3 \<le> 1507.980000281"
    using s2 t3 by simp
  define bmr where "bmr = fl (s2 - t3)"
  have bmr: "1507.979999718 \<le> bmr \<and> bmr \<le> 1507.980000282"
    unfolding bmr_def using fl_step[OF rel bmrx] by simp
  have bmrF: "to_float fl (s2 - t3) = Finite bmr"
    unfolding bmr_def using to_float_step[OF rel bmrx] by simp
  have amrx: "1809.575998153 \<le> bmr * m \<and> bmr * m \<le> 1809.576001847"
    using mult_mono[of "1507.979999718" bmr "1.199999999" m] mult_mono[of bmr "1507.980000282" m "1.200000001"] bmr m by simp
  define amr where "amr = fl (bmr * m)"
  have amr: "1809.575998152 \<le> amr \<and> amr \<le> 1809.576001848"
    unfolding amr_def using fl_step[OF rel amrx] by simp
  have amrF: "to_float fl (bmr * m) = Finite amr"
    unfolding amr_def using to_float_step[OF rel amrx] by simp
  have calx: "1309.575998152 \<le> amr - 500 \<and> amr - 500 \<le> 1309.576001848"
    using amr by simp
  define cal where "cal = fl (amr - 500)"
  have cal: "1309.575998151 \<le> cal \<and> cal \<le> 1309.576001849"
    unfolding cal_def using fl_step[OF rel calx] by simp
  have calF: "to_float fl (amr - 500) = Finite cal"
    unfolding cal_def using to_float_step[OF rel calx] by simp
  have r: "py_round cal = 1310"
    using cal by (intro py_round_near) simp_all
  have ne: "''Female'' \<noteq> ''Male''" by simp
  show ?thesis
    unfolding spec_bmr_def
    by (simp only: if_not_P[OF ne] c0F c1F c2F c3F mF t1F s1F t2F s2F t3F bmrF amrF calF
        float_mul.simps float_add.simps float_sub.simps py_round_float_def pyfloat.case r)
qed

lemma valid_profile_tables:
  assumes "valid_profile u"
  shows "\<exists>g act m gl adj. gender u = Some g \<and> g \<in> set spec_genders \<and>
           activity_level u = Some act \<and> map_of spec_multipliers act = Some m \<and>
           goal u = Some gl \<and> map_of spec_adjustments gl = Some adj"
proof -
  from assms obtain g where g: "gender u = Some g" "g \<in> set spec_genders"
    by (auto simp: valid_profile_def valid_gender_def)
  from assms obtain act where act: "activity_level u = Some act"
    "act \<in> fst ` set spec_multipliers"
    by (auto simp: valid_profile_def valid_activity_def)
  from act(2) have "map_of spec_multipliers act \<noteq> None" by (simp only: map_of_eq_None_iff not_not)
  then obtain m where m: "map_of spec_multipliers act = Some m" by blast
  from assms obtain gl where gl: "goal u = Some gl" "gl \<in> fst ` set spec_adjustments"
    by (auto simp: valid_profile_def valid_goal_def)
  from gl(2) have "map_of spec_adjustments gl \<noteq> None" by (simp only: map_of_eq_None_iff not_not)
  then obtain adj where adj: "map_of spec_adjustments gl = Some adj" by blast
  from g act(1) m gl(1) adj show ?thesis by blast
qed

lemma calculate_calories_returns:
  assumes rel: "\<forall>x. \<bar>fl x - x\<bar> \<le> \<bar>x\<bar> / 2 ^ 53 + 1 / 2 ^ 1075"
    and n: "weight u = Some w" "height u = Some h" "age u = Some a"
    and v: "\<bar>w\<bar> \<le> 1000" "\<bar>h\<bar> \<le> 1000" "\<bar>a\<bar> \<le> 1000"
    and p: "valid_profile u"
  shows "\<exists>c. calculate_calories fl u = Inr c"
proof -
  from valid_profile_tables[OF p] obtain g act m gl adj where
    t: "gender u = Some g" "g \<in> set spec_genders"
       "activity_level u = Some act" "map_of spec_multipliers act = Some m"
       "goal u = Some gl" "map_of spec_adjustments gl = Some adj" by blast
  from calculate_calories_near[OF rel t n v] show ?thesis by blast
qed

section \<open>Results on the calculator\<close>

text \<open>
  C1. For a profile whose gender, activity level and goal are among the listed values,
  \<open>calculate_calories\<close> returns the rounded value of BMR times the activity multiplier plus
  the goal adjustment, with the BMR formula of the gender, the multipliers 1.2, 1.375,
  1.55, 1.725, 1.9 and the adjustments -500, 0, +500.

  First, for numbers of any size and every rounding under which a rounded number rounds to
  itself: when the formula, read as a float expression, has the finite value \<open>x\<close>, the
  call returns an integer nearest to \<open>x\<close>, the even one at a tie; when the expression
  overflows to an infinity the call raises \<open>OverflowError\<close>, and when it is not a number,
  \<open>ValueError\<close>, as \<open>round\<close> of the expression does.

  Second, for weight, height and age up to 1000 and every rounding with the error of
  binary64 (relative \<open>2\<^sup>-\<^sup>5\<^sup>3\<close>, absolute \<open>2\<^sup>-\<^sup>1\<^sup>0\<^sup>7\<^sup>5\<close> near zero): the call returns an
  integer, and it lies within \<open>1/2 + 10\<^sup>-\<^sup>6\<close> of the formula's value in exact arithmetic.
  So the result is the rounded exact value unless that value is within \<open>10\<^sup>-\<^sup>6\<close> of a
  half, where the float computation may land on either neighbour.
\<close>

theorem calculate_calories_formula:
  assumes g: "gender u = Some g" "g \<in> set spec_genders"
    and act: "activity_level u = Some act" "map_of spec_multipliers act = Some m"
    and gl: "goal u = Some gl" "map_of spec_adjustments gl = Some adj"
    and n: "weight u = Some w" "height u = Some h" "age u = Some a"
  shows "((\<forall>x. fl (fl x) = fl x) \<longrightarrow>
            (case spec_value fl g w h a m adj of
               Finite x \<Rightarrow>
                 \<exists>k. calculate_calories fl u = Inr k \<and> \<bar>of_int k - x\<bar> \<le> 1 / 2 \<and>
                     (\<bar>of_int k - x\<bar> = 1 / 2 \<longrightarrow> even k)
             | PosInf \<Rightarrow> calculate_calories fl u = Inl OverflowError
             | NegInf \<Rightarrow> calculate_calories fl u = Inl OverflowError
             | NaN \<Rightarrow> calculate_calories fl u = Inl ValueError)) \<and>
         ((\<forall>x. \<bar>fl x - x\<bar> \<le> \<bar>x\<bar> / 2 ^ 53 + 1 / 2 ^ 1075) \<and>
          \<bar>w\<bar> \<le> 1000 \<and> \<bar>h\<bar> \<le> 1000 \<and> \<bar>a\<bar> \<le> 1000 \<longrightarrow>
            (\<exists>k. calculate_calories fl u = Inr k \<and>
                 \<bar>of_int k - (exact_bmr g w h a * m + adj)\<bar> \<le> 1 / 2 + 1 / 10 ^ 6))"
proof (intro conjI impI)
  assume idem: "\<forall>x. fl (fl x) = fl x"
  from calculate_calories_spec_value[OF idem g act gl n]
  have "calculate_calories fl u = py_round_float (spec_value fl g w h a m adj)" .
  with py_round_float_spec[of "spec_value fl g w h a m adj"]
  show "case spec_value fl g w h a m adj of
          Finite x \<Rightarrow>
            \<exists>k. calculate_calories fl u = Inr k \<and> \<bar>of_int k - x\<bar> \<le> 1 / 2 \<and>
                (\<bar>of_int k - x\<bar> = 1 / 2 \<longrightarrow> even k)
        | PosInf \<Rightarrow> calculate_calories fl u = Inl OverflowError
        | NegInf \<Rightarrow> calculate_calories fl u = Inl OverflowError
        | NaN \<Rightarrow> calculate_calories fl u = Inl ValueError"
    by (simp only:)
next
  assume "(\<forall>x. \<bar>fl x - x\<bar> \<le> \<bar>x\<bar> / 2 ^ 53 + 1 / 2 ^ 1075) \<and>
          \<bar>w\<bar> \<le> 1000 \<and> \<bar>h\<bar> \<le> 1000 \<and> \<bar>a\<bar> \<le> 1000"
  then have rel: "\<forall>x. \<bar>fl x - x\<bar> \<le> \<bar>x\<bar> / 2 ^ 53 + 1 / 2 ^ 1075"
    and v: "\<bar>w\<bar> \<le> 1000" "\<bar>h\<bar> \<le> 1000" "\<bar>a\<bar> \<le> 1000" by blast+
  from calculate_calories_near[OF rel g act gl n v]
  show "\<exists>k. calculate_calories fl u = Inr k \<and>
            \<bar>of_int k - (exact_bmr g w h a * m + adj)\<bar> \<le> 1 / 2 + 1 / 10 ^ 6" .
qed

theorem calculate_calories_formula_witness:
  "calculate_calories (\<lambda>x. x) example_user = Inr 2638 \<and>
   calculate_calories (\<lambda>x. x) (example_user\<lparr>weight := Some max_float\<rparr>) = Inl OverflowError"
proof
  have "\<exists>k. calculate_calories (\<lambda>x. x) example_user = Inr k \<and>
            \<bar>of_int k - (exact_bmr ''Male'' 70 175 30 * 1.55 + 0)\<bar> \<le> 1 / 2 + 1 / 10 ^ 6"
    using calculate_calories_formula[of example_user "''Male''" "''Moderately Active''" "1.55"
        "''Maintain Weight''" 0 70 175 30 "\<lambda>x. x"]
    by (simp add: example_user_def spec_genders_def spec_multipliers_def spec_adjustments_def)
  then obtain k where k: "calculate_calories (\<lambda>x. x) example_user = Inr k"
    and d: "\<bar>rat_of_int k - (exact_bmr ''Male'' 70 175 30 * 1.55 + 0)\<bar> \<le> 1 / 2 + 1 / 10 ^ 6"
    by blast
  from d have "\<bar>rat_of_int k - 10551439 / 4000\<bar> \<le> 500001 / 1000000"
    by (simp add: exact_bmr_def)
  then have "rat_of_int k \<le> 13192 / 5" "26373 / 10 \<le> rat_of_int k" by linarith+
  then have "rat_of_int k < rat_of_int 2639" "rat_of_int 2637 < rat_of_int k" by simp_all
  then have "k < 2639" "2637 < k" by (simp_all only: of_int_less_iff)
  then have "k = 2638" by simp
  with k show "calculate_calories (\<lambda>x. x) example_user = Inr 2638" by simp
next
  let ?u = "example_user\<lparr>weight := Some max_float\<rparr>"
  have p: "gender ?u = Some ''Male''" "''Male'' \<in> set spec_genders"
    "activity_level ?u = Some ''Moderately Active''"
    "map_of spec_multipliers ''Moderately Active'' = Some 1.55"
    "goal ?u = Some ''Maintain Weight''" "map_of spec_adjustments ''Maintain Weight'' = Some 0"
    "weight ?u = Some max_float" "height ?u = Some 175" "age ?u = Some 30"
    by (simp_all add: example_user_def spec_genders_def spec_multipliers_def
        spec_adjustments_def)
  have v: "spec_value (\<lambda>x. x) ''Male'' max_float 175 30 1.55 0 = PosInf"
    by (simp add: spec_value_def spec_bmr_def to_float_def max_float_def)
  have i: "\<forall>x::rat. x = x" by simp
  show "calculate_calories (\<lambda>x. x) ?u = Inl OverflowError"
    using calculate_calories_formula[OF p, of "\<lambda>x. x", THEN conjunct1, THEN mp, OF i]
    by (simp only: v pyfloat.case)
qed

text \<open>
  C2. For weight 70, height 175, age 30: a moderately active male who maintains weight
  gets 2638, a sedentary female who loses weight gets 1310. This holds in exact arithmetic
  and in any arithmetic that rounds each literal and each result with the relative error
  of binary64.
\<close>

theorem calculate_calories_examples:
  assumes rel: "\<forall>x. 1 \<le> \<bar>x\<bar> \<and> \<bar>x\<bar> \<le> 10000 \<longrightarrow> \<bar>fl x - x\<bar> \<le> \<bar>x\<bar> / 2 ^ 53"
    and bio: "weight um = Some 70" "height um = Some 175" "age um = Some 30"
             "weight uf = Some 70" "height uf = Some 175" "age uf = Some 30"
    and male: "gender um = Some ''Male''" "activity_level um = Some ''Moderately Active''"
              "goal um = Some ''Maintain Weight''"
    and female: "gender uf = Some ''Female''" "activity_level uf = Some ''Sedentary''"
                "goal uf = Some ''Lose Weight''"
  shows "calculate_calories fl um = Inr 2638 \<and> calculate_calories fl uf = Inr 1310"
proof
  have "assign_bmr fl um = Inr (Some (spec_bmr fl ''Male'' 70 175 30))"
    using male(1) bio(1,2,3) by (intro assign_bmr_spec) (simp_all add: spec_genders_def)
  moreover have "assign_amr fl um (Some b) = Inr (Some (float_mul fl b (to_float fl 1.55)))" for b
    using male(2) by (simp add: assign_amr_def ebind_def local_var_def)
  moreover have "assign_calories fl um (Some c) = Inr (Some c)" for c
    using male(3) by (simp add: assign_calories_def ebind_def local_var_def)
  ultimately have "calculate_calories fl um
      = py_round_float (float_mul fl (spec_bmr fl ''Male'' 70 175 30) (to_float fl 1.55))"
    by (simp add: calculate_calories_def ebind_def local_var_def)
  then show "calculate_calories fl um = Inr 2638"
    using male_example_value[OF rel] by simp
next
  have "assign_bmr fl uf = Inr (Some (spec_bmr fl ''Female'' 70 175 30))"
    using female(1) bio(4,5,6) by (intro assign_bmr_spec) (simp_all add: spec_genders_def)
  moreover have "assign_amr fl uf (Some b) = Inr (Some (float_mul fl b (to_float fl 1.2)))" for b
    using female(2) by (simp add: assign_amr_def ebind_def local_var_def)
  moreover have "assign_calories fl uf (Some c) = Inr (Some (float_sub fl c (Finite 500)))" for c
    using female(3) by (simp add: assign_calories_def ebind_def local_var_def)
  ultimately have "calculate_calories fl uf
      = py_round_float
          (float_sub fl (float_mul fl (spec_bmr fl ''Female'' 70 175 30) (to_float fl 1.2))
            (Finite 500))"
    by (simp add: calculate_calories_def ebind_def local_var_def)
  then show "calculate_calories fl uf = Inr 1310"
    using female_example_value[OF rel] by simp
qed

theorem calculate_calories_examples_witness:
  "calculate_calories (\<lambda>x. x) example_user = Inr 2638 \<and>
   calculate_calories (\<lambda>x. x) example_user_female = Inr 1310"
  by (rule calculate_calories_examples)
     (simp_all add: example_user_def example_user_female_def)

text \<open>
  C9. \<open>calculate_calories\<close> returns a value only for the profiles whose gender, activity
  level and goal are among the listed values, and for such a profile no local variable is
  read before it is assigned: with weight, height and age present the call ends in
  \<open>round\<close>, which returns an integer or, on a float that has overflowed, raises
  \<open>OverflowError\<close> or \<open>ValueError\<close>; it returns an integer whenever weight, height and age
  are at most 1000 and the arithmetic rounds as binary64 does.
  Outside the listed values the function reads a local variable that no branch has
  assigned, which in Python raises \<open>UnboundLocalError\<close>; an unlisted gender is enough for
  that.
\<close>

theorem calculate_calories_total_iff_valid:
  "(weight u \<noteq> None \<and> height u \<noteq> None \<and> age u \<noteq> None \<and> valid_profile u
      \<longrightarrow> (\<exists>c. calculate_calories fl u = Inr c) \<or>
          calculate_calories fl u = Inl OverflowError \<or>
          calculate_calories fl u = Inl ValueError) \<and>
   ((\<forall>x. \<bar>fl x - x\<bar> \<le> \<bar>x\<bar> / 2 ^ 53 + 1 / 2 ^ 1075) \<and>
    (\<exists>w h a. weight u = Some w \<and> height u = Some h \<and> age u = Some a \<and>
             \<bar>w\<bar> \<le> 1000 \<and> \<bar>h\<bar> \<le> 1000 \<and> \<bar>a\<bar> \<le> 1000) \<and> valid_profile u
      \<longrightarrow> (\<exists>c. calculate_calories fl u = Inr c)) \<and>
   (valid_profile u \<longrightarrow> calculate_calories fl u \<noteq> Inl UnboundLocalError) \<and>
   ((\<exists>c. calculate_calories fl u = Inr c) \<longrightarrow> valid_profile u) \<and>
   (\<not> valid_gender u \<longrightarrow> calculate_calories fl u = Inl UnboundLocalError) \<and>
   (weight u \<noteq> None \<and> height u \<noteq> None \<and> age u \<noteq> None \<and> \<not> valid_profile u
      \<longrightarrow> calculate_calories fl u = Inl UnboundLocalError)"
  using calculate_calories_valid_cases[of u _ _ _ fl] calculate_calories_Inr_valid[of fl u]
    calculate_calories_invalid_gender[of u fl] calculate_calories_invalid[of u _ _ _ fl]
    calculate_calories_valid_bound[of u fl] calculate_calories_returns[of fl u]
  by blast

theorem calculate_calories_total_iff_valid_witness:
  "valid_profile example_user \<and>
   (\<exists>c. calculate_calories (\<lambda>x. x) example_user = Inr c) \<and>
   \<not> valid_gender (example_user\<lparr>gender := Some ''Other''\<rparr>) \<and>
   calculate_calories (\<lambda>x. x) (example_user\<lparr>gender := Some ''Other''\<rparr>)
     = Inl UnboundLocalError"
proof -
  have v: "valid_profile example_user"
    by (simp add: valid_profile_def valid_gender_def valid_activity_def valid_goal_def
        spec_genders_def spec_multipliers_def spec_adjustments_def example_user_def)
  have n: "\<exists>w h a. weight example_user = Some w \<and> height example_user = Some h \<and>
             age example_user = Some a \<and> \<bar>w\<bar> \<le> 1000 \<and> \<bar>h\<bar> \<le> 1000 \<and> \<bar>a\<bar> \<le> 1000"
    by (simp add: example_user_def)
  have r: "\<forall>x::rat. \<bar>(\<lambda>x. x) x - x\<bar> \<le> \<bar>x\<bar> / 2 ^ 53 + 1 / 2 ^ 1075" by simp
  have i: "\<not> valid_gender (example_user\<lparr>gender := Some ''Other''\<rparr>)"
    by (simp add: valid_gender_def spec_genders_def)
  show ?thesis
    using v n r i calculate_calories_total_iff_valid[of example_user "\<lambda>x. x"]
      calculate_calories_total_iff_valid[of "example_user\<lparr>gender := Some ''Other''\<rparr>" "\<lambda>x. x"]
    by blast
qed

section \<open>Tables: queries, deletions and fresh keys\<close>

lemma filter_delete_same: "filter P (delete_rows P xs) = []"
  by (induction xs) (auto simp: delete_rows_def)

lemma filter_delete_other:
  "(\<And>x. P x \<Longrightarrow> \<not> Q x) \<Longrightarrow> filter P (delete_rows Q xs) = filter P xs"
  by (induction xs) (auto simp: delete_rows_def)

lemma first_None_filter: "first P xs = None \<Longrightarrow> filter P xs = []"
  by (induction xs) (auto simp: first_def split: if_splits)

lemma first_Some_mem: "first P xs = Some x \<Longrightarrow> x \<in> set xs \<and> P x"
  by (induction xs) (auto simp: first_def split: if_splits)

lemma distinct_map_filter_le1:
  "distinct (map f xs) \<Longrightarrow> length (filter (\<lambda>x. f x = k) xs) \<le> 1"
proof (induction xs)
  case Nil then show ?case by simp
next
  case (Cons x xs)
  show ?case
  proof (cases "f x = k")
    case True
    with Cons.prems have "\<forall>y \<in> set xs. f y \<noteq> k" by (auto simp: image_iff)
    then have "filter (\<lambda>x. f x = k) xs = []" by (simp add: filter_empty_conv)
    with True show ?thesis by simp
  next
    case False
    with Cons show ?thesis by simp
  qed
qed

lemma fold_max_ge: "x \<in> set xs \<Longrightarrow> x \<le> fold max xs (a::nat)"
proof (induction xs arbitrary: a)
  case Nil then show ?case by simp
next
  case (Cons y ys)
  have mono: "a \<le> fold max ys a" for a :: nat
    by (induction ys arbitrary: a) (auto intro: order_trans[OF max.cobounded2])
  show ?case
  proof (cases "x = y")
    case True
    have "y \<le> max y a" by simp
    also have "\<dots> \<le> fold max ys (max y a)" by (rule mono)
    finally show ?thesis using True by simp
  next
    case False
    with Cons show ?thesis by simp
  qed
qed

lemma next_id_fresh: "next_id ids \<notin> set ids"
proof
  assume "next_id ids \<in> set ids"
  then have "next_id ids \<le> fold max ids 0" by (rule fold_max_ge)
  then show False by (simp add: next_id_def)
qed

lemma length_user_current_meals: "length (user_current_meals diet chosen) = 3"
  by (simp add: user_current_meals_def split: prod.splits)

lemma user_current_meals_diet:
  "m \<in> set (user_current_meals diet chosen) \<Longrightarrow> ucdm_user_current_diet_id m = diet"
  by (auto simp: user_current_meals_def split: prod.splits)

lemma diet_calories_of_diet: "dc_user_current_diet_id (diet_calories_of fl diet chosen) = diet"
  by (simp add: diet_calories_of_def split: prod.splits)

lemma replace_diet_existing:
  assumes "first (\<lambda>d. ucd_user_id d = user_id u) (user_current_diet s) = Some d"
  shows "replace_diet fl chosen s u =
     s\<lparr>user_current_diet_meals :=
          delete_rows (\<lambda>m. ucdm_user_current_diet_id m = ucd_id d) (user_current_diet_meals s)
            @ user_current_meals (ucd_id d) chosen,
        diet_calories :=
          delete_rows (\<lambda>c. dc_user_current_diet_id c = ucd_id d) (diet_calories s)
            @ [diet_calories_of fl (ucd_id d) chosen]\<rparr>"
  using assms by (simp add: replace_diet_def Let_def)

lemma replace_diet_new:
  assumes "first (\<lambda>d. ucd_user_id d = user_id u) (user_current_diet s) = None"
  shows "replace_diet fl chosen s u =
     s\<lparr>user_current_diet := user_current_diet s
          @ [\<lparr>ucd_id = next_id (map ucd_id (user_current_diet s)), ucd_user_id = user_id u\<rparr>],
        user_current_diet_meals := user_current_diet_meals s
          @ user_current_meals (next_id (map ucd_id (user_current_diet s))) chosen,
        diet_calories := diet_calories s
          @ [diet_calories_of fl (next_id (map ucd_id (user_current_diet s))) chosen]\<rparr>"
  using assms by (simp add: replace_diet_def Let_def)


lemma store_inv_cong:
  assumes "user_calories s' = user_calories s" "user_current_diet s' = user_current_diet s"
    "user_current_diet_meals s' = user_current_diet_meals s" "diet_calories s' = diet_calories s"
  shows "store_inv s' = store_inv s"
  by (simp add: store_inv_def targets_of_def meals_of_def totals_of_def assms)

lemma targets_of_replace_target:
  "targets_of (replace_target c s u) uid =
     (if uid = user_id u then [\<lparr>uc_calories = c, uc_user_id = user_id u\<rparr>]
      else targets_of s uid)"
proof (cases "uid = user_id u")
  case True
  have "filter (\<lambda>r. uc_user_id r = user_id u)
          (if first (\<lambda>r. uc_user_id r = user_id u) (user_calories s) \<noteq> None
           then delete_rows (\<lambda>r. uc_user_id r = user_id u) (user_calories s)
           else user_calories s) = []"
    by (simp add: filter_delete_same first_None_filter)
  with True show ?thesis
    by (simp add: targets_of_def all_rows_def replace_target_def Let_def)
next
  case False
  have "filter (\<lambda>r. uc_user_id r = uid)
          (delete_rows (\<lambda>r. uc_user_id r = user_id u) (user_calories s))
        = filter (\<lambda>r. uc_user_id r = uid) (user_calories s)"
    using False by (intro filter_delete_other) simp
  with False show ?thesis
    by (simp add: targets_of_def all_rows_def replace_target_def Let_def)
qed

lemma store_inv_replace_target:
  assumes "store_inv s"
  shows "store_inv (replace_target c s u)"
proof -
  have t: "\<forall>uid. length (targets_of (replace_target c s u) uid) \<le> 1"
    using assms by (simp add: targets_of_replace_target store_inv_def)
  have eq: "user_current_diet (replace_target c s u) = user_current_diet s"
    "user_current_diet_meals (replace_target c s u) = user_current_diet_meals s"
    "diet_calories (replace_target c s u) = diet_calories s"
    by (simp_all add: replace_target_def Let_def)
  from assms t show ?thesis
    by (simp add: store_inv_def meals_of_def totals_of_def eq)
qed

lemma meals_of_replace_existing:
  "filter (\<lambda>m. ucdm_user_current_diet_id m = k)
     (delete_rows (\<lambda>m. ucdm_user_current_diet_id m = diet) ms @ user_current_meals diet chosen)
   = (if k = diet then user_current_meals diet chosen
      else filter (\<lambda>m. ucdm_user_current_diet_id m = k) ms)"
proof (cases "k = diet")
  case True
  have "filter (\<lambda>m. ucdm_user_current_diet_id m = diet) (user_current_meals diet chosen)
        = user_current_meals diet chosen"
    by (simp add: filter_id_conv user_current_meals_diet)
  with True show ?thesis by (simp add: filter_delete_same)
next
  case False
  have a: "filter (\<lambda>m. ucdm_user_current_diet_id m = k)
             (delete_rows (\<lambda>m. ucdm_user_current_diet_id m = diet) ms)
           = filter (\<lambda>m. ucdm_user_current_diet_id m = k) ms"
    using False by (intro filter_delete_other) simp
  have b: "filter (\<lambda>m. ucdm_user_current_diet_id m = k) (user_current_meals diet chosen) = []"
    using False by (auto simp: filter_empty_conv dest: user_current_meals_diet)
  from False a b show ?thesis by simp
qed

lemma totals_of_replace_existing:
  "filter (\<lambda>c. dc_user_current_diet_id c = k)
     (delete_rows (\<lambda>c. dc_user_current_diet_id c = diet) cs @ [diet_calories_of fl diet chosen])
   = (if k = diet then [diet_calories_of fl diet chosen]
      else filter (\<lambda>c. dc_user_current_diet_id c = k) cs)"
proof (cases "k = diet")
  case True
  then show ?thesis by (simp add: filter_delete_same diet_calories_of_diet)
next
  case False
  have "filter (\<lambda>c. dc_user_current_diet_id c = k)
          (delete_rows (\<lambda>c. dc_user_current_diet_id c = diet) cs)
        = filter (\<lambda>c. dc_user_current_diet_id c = k) cs"
    using False by (intro filter_delete_other) simp
  with False show ?thesis by (simp add: diet_calories_of_diet)
qed

lemma set_delete_rows: "set (delete_rows P xs) \<subseteq> set xs"
  by (auto simp: delete_rows_def)

lemma store_inv_replace_diet_existing:
  assumes inv: "store_inv s"
    and d: "first (\<lambda>d. ucd_user_id d = user_id u) (user_current_diet s) = Some d"
  shows "store_inv (replace_diet fl chosen s u)"
proof -
  let ?s' = "replace_diet fl chosen s u"
  from d have dm: "d \<in> set (user_current_diet s)" by (simp add: first_Some_mem)
  have eq: "user_calories ?s' = user_calories s" "user_current_diet ?s' = user_current_diet s"
    by (simp_all add: replace_diet_existing[OF d])
  have m: "meals_of ?s' k = (if k = ucd_id d then user_current_meals (ucd_id d) chosen
                              else meals_of s k)" for k
    by (simp add: meals_of_def all_rows_def replace_diet_existing[OF d]
        meals_of_replace_existing del: filter_append)
  have t: "totals_of ?s' k = (if k = ucd_id d then [diet_calories_of fl (ucd_id d) chosen]
                               else totals_of s k)" for k
    by (simp add: totals_of_def all_rows_def replace_diet_existing[OF d]
        totals_of_replace_existing del: filter_append)
  have c1: "\<forall>uid. length (targets_of ?s' uid) \<le> 1"
    using inv by (simp add: store_inv_def targets_of_def eq)
  have c2: "distinct (map ucd_user_id (user_current_diet ?s'))"
    "distinct (map ucd_id (user_current_diet ?s'))"
    using inv by (simp_all add: store_inv_def eq)
  have c3: "\<forall>d' \<in> set (user_current_diet ?s').
      length (meals_of ?s' (ucd_id d')) = 3 \<and> length (totals_of ?s' (ucd_id d')) = 1"
    using inv by (simp add: store_inv_def eq m t length_user_current_meals)
  have c4: "\<forall>x \<in> set (user_current_diet_meals ?s').
      ucdm_user_current_diet_id x \<in> ucd_id ` set (user_current_diet ?s')"
  proof
    fix x assume "x \<in> set (user_current_diet_meals ?s')"
    then have "x \<in> set (user_current_diet_meals s) \<or> x \<in> set (user_current_meals (ucd_id d) chosen)"
      using set_delete_rows[of _ "user_current_diet_meals s"]
      by (auto simp: replace_diet_existing[OF d])
    then show "ucdm_user_current_diet_id x \<in> ucd_id ` set (user_current_diet ?s')"
      using inv dm by (auto simp: store_inv_def eq dest: user_current_meals_diet)
  qed
  have c5: "\<forall>x \<in> set (diet_calories ?s').
      dc_user_current_diet_id x \<in> ucd_id ` set (user_current_diet ?s')"
  proof
    fix x assume "x \<in> set (diet_calories ?s')"
    then have "x \<in> set (diet_calories s) \<or> x = diet_calories_of fl (ucd_id d) chosen"
      using set_delete_rows[of _ "diet_calories s"]
      by (auto simp: replace_diet_existing[OF d])
    then show "dc_user_current_diet_id x \<in> ucd_id ` set (user_current_diet ?s')"
      using inv dm by (auto simp: store_inv_def eq diet_calories_of_diet)
  qed
  from c1 c2 c3 c4 c5 show ?thesis unfolding store_inv_def by blast
qed


lemma first_append_new: "first P xs = None \<Longrightarrow> P x \<Longrightarrow> first P (xs @ [x]) = Some x"
  by (induction xs) (auto simp: first_def split: if_splits)

lemma distinct_first_filter:
  "distinct (map f xs) \<Longrightarrow> first (\<lambda>x. f x = k) xs = Some d \<Longrightarrow> filter (\<lambda>x. f x = k) xs = [d]"
proof (induction xs)
  case Nil then show ?case by (simp add: first_def)
next
  case (Cons x xs)
  show ?case
  proof (cases "f x = k")
    case True
    with Cons.prems have "\<forall>y \<in> set xs. f y \<noteq> k" by (auto simp: image_iff)
    then have "filter (\<lambda>x. f x = k) xs = []" by (simp add: filter_empty_conv)
    with True Cons.prems(2) show ?thesis by (simp add: first_def)
  next
    case False
    with Cons show ?thesis by (simp add: first_def)
  qed
qed

lemma no_rows_of_fresh:
  "\<forall>m \<in> set ms. f m \<in> S \<Longrightarrow> k \<notin> S \<Longrightarrow> filter (\<lambda>m. f m = k) ms = []"
  by (auto simp: filter_empty_conv)

lemma store_inv_refs:
  assumes "store_inv s"
  shows "\<forall>m \<in> set (user_current_diet_meals s).
           ucdm_user_current_diet_id m \<in> ucd_id ` set (user_current_diet s)"
    and "\<forall>c \<in> set (diet_calories s).
           dc_user_current_diet_id c \<in> ucd_id ` set (user_current_diet s)"
  using assms by (simp_all add: store_inv_def)

lemma store_inv_replace_diet_new:
  assumes inv: "store_inv s"
    and n: "first (\<lambda>d. ucd_user_id d = user_id u) (user_current_diet s) = None"
  shows "store_inv (replace_diet fl chosen s u)"
proof -
  let ?s' = "replace_diet fl chosen s u"
  let ?k = "next_id (map ucd_id (user_current_diet s))"
  let ?d = "\<lparr>ucd_id = ?k, ucd_user_id = user_id u\<rparr>"
  have fresh: "?k \<notin> ucd_id ` set (user_current_diet s)"
    using next_id_fresh[of "map ucd_id (user_current_diet s)"] by simp
  from n have nou: "user_id u \<notin> ucd_user_id ` set (user_current_diet s)"
    using first_None_filter[OF n] by (auto simp: filter_empty_conv)
  have eq: "user_calories ?s' = user_calories s"
    "user_current_diet ?s' = user_current_diet s @ [?d]"
    "user_current_diet_meals ?s' = user_current_diet_meals s @ user_current_meals ?k chosen"
    "diet_calories ?s' = diet_calories s @ [diet_calories_of fl ?k chosen]"
    by (simp_all add: replace_diet_new[OF n])
  have nomeals: "filter (\<lambda>m. ucdm_user_current_diet_id m = ?k) (user_current_diet_meals s) = []"
    using store_inv_refs(1)[OF inv] fresh by (rule no_rows_of_fresh)
  have nototals: "filter (\<lambda>c. dc_user_current_diet_id c = ?k) (diet_calories s) = []"
    using store_inv_refs(2)[OF inv] fresh by (rule no_rows_of_fresh)
  have m: "meals_of ?s' k = (if k = ?k then user_current_meals ?k chosen else meals_of s k)" for k
  proof (cases "k = ?k")
    case True
    have "filter (\<lambda>m. ucdm_user_current_diet_id m = ?k) (user_current_meals ?k chosen)
          = user_current_meals ?k chosen"
      by (simp add: filter_id_conv user_current_meals_diet)
    with True nomeals show ?thesis by (simp add: meals_of_def all_rows_def eq)
  next
    case False
    then have "filter (\<lambda>m. ucdm_user_current_diet_id m = k) (user_current_meals ?k chosen) = []"
      by (auto simp: filter_empty_conv dest: user_current_meals_diet)
    with False show ?thesis by (simp add: meals_of_def all_rows_def eq)
  qed
  have t: "totals_of ?s' k = (if k = ?k then [diet_calories_of fl ?k chosen] else totals_of s k)"
    for k
    using nototals by (simp add: totals_of_def all_rows_def eq diet_calories_of_diet)
  have c1: "\<forall>uid. length (targets_of ?s' uid) \<le> 1"
    using inv by (simp add: store_inv_def targets_of_def eq)
  have c2: "distinct (map ucd_user_id (user_current_diet ?s'))"
    "distinct (map ucd_id (user_current_diet ?s'))"
    using inv nou fresh by (simp_all add: store_inv_def eq)
  have c3: "\<forall>d' \<in> set (user_current_diet ?s').
      length (meals_of ?s' (ucd_id d')) = 3 \<and> length (totals_of ?s' (ucd_id d')) = 1"
    using inv fresh by (auto simp: store_inv_def eq m t length_user_current_meals)
  have c4: "\<forall>x \<in> set (user_current_diet_meals ?s').
      ucdm_user_current_diet_id x \<in> ucd_id ` set (user_current_diet ?s')"
    using inv by (auto simp: store_inv_def eq dest: user_current_meals_diet)
  have c5: "\<forall>x \<in> set (diet_calories ?s').
      dc_user_current_diet_id x \<in> ucd_id ` set (user_current_diet ?s')"
    using inv by (auto simp: store_inv_def eq diet_calories_of_diet)
  from c1 c2 c3 c4 c5 show ?thesis unfolding store_inv_def by blast
qed

lemma store_inv_replace_diet: "store_inv s \<Longrightarrow> store_inv (replace_diet fl chosen s u)"
  by (cases "first (\<lambda>d. ucd_user_id d = user_id u) (user_current_diet s)")
     (simp_all add: store_inv_replace_diet_new store_inv_replace_diet_existing)

lemma replace_diet_result:
  assumes inv: "store_inv s"
  shows "\<exists>d. first (\<lambda>d. ucd_user_id d = user_id u) (user_current_diet (replace_diet fl chosen s u))
               = Some d \<and>
             meals_of (replace_diet fl chosen s u) (ucd_id d) = user_current_meals (ucd_id d) chosen \<and>
             totals_of (replace_diet fl chosen s u) (ucd_id d)
               = [diet_calories_of fl (ucd_id d) chosen]"
proof (cases "first (\<lambda>d. ucd_user_id d = user_id u) (user_current_diet s)")
  case None
  let ?k = "next_id (map ucd_id (user_current_diet s))"
  let ?d = "\<lparr>ucd_id = ?k, ucd_user_id = user_id u\<rparr>"
  have fresh: "?k \<notin> ucd_id ` set (user_current_diet s)"
    using next_id_fresh[of "map ucd_id (user_current_diet s)"] by simp
  have nomeals: "filter (\<lambda>m. ucdm_user_current_diet_id m = ?k) (user_current_diet_meals s) = []"
    using store_inv_refs(1)[OF inv] fresh by (rule no_rows_of_fresh)
  have nototals: "filter (\<lambda>c. dc_user_current_diet_id c = ?k) (diet_calories s) = []"
    using store_inv_refs(2)[OF inv] fresh by (rule no_rows_of_fresh)
  have f: "first (\<lambda>d. ucd_user_id d = user_id u) (user_current_diet (replace_diet fl chosen s u))
             = Some ?d"
    using None by (simp add: replace_diet_new[OF None] first_append_new)
  have "filter (\<lambda>m. ucdm_user_current_diet_id m = ?k) (user_current_meals ?k chosen)
          = user_current_meals ?k chosen"
    by (simp add: filter_id_conv user_current_meals_diet)
  with nomeals have m: "meals_of (replace_diet fl chosen s u) ?k = user_current_meals ?k chosen"
    by (simp add: meals_of_def all_rows_def replace_diet_new[OF None])
  have t: "totals_of (replace_diet fl chosen s u) ?k = [diet_calories_of fl ?k chosen]"
    using nototals
    by (simp add: totals_of_def all_rows_def replace_diet_new[OF None] diet_calories_of_diet)
  from f m t show ?thesis by simp
next
  case (Some d)
  have f: "first (\<lambda>d. ucd_user_id d = user_id u) (user_current_diet (replace_diet fl chosen s u))
             = Some d"
    using Some by (simp add: replace_diet_existing[OF Some])
  have m: "meals_of (replace_diet fl chosen s u) (ucd_id d) = user_current_meals (ucd_id d) chosen"
    by (simp add: meals_of_def all_rows_def replace_diet_existing[OF Some]
        meals_of_replace_existing del: filter_append)
  have t: "totals_of (replace_diet fl chosen s u) (ucd_id d)
             = [diet_calories_of fl (ucd_id d) chosen]"
    by (simp add: totals_of_def all_rows_def replace_diet_existing[OF Some]
        totals_of_replace_existing del: filter_append)
  from f m t show ?thesis by simp
qed

section \<open>What each handler writes\<close>

lemma redirect_to_show_meals: "redirect_to ''show_meals'' = Inr (Redirect ''/show-meals'')"
  by (simp add: redirect_to_def url_for_def endpoints_def ebind_def)

lemma redirect_to_get_calories: "redirect_to ''get_calories'' = Inr (Redirect ''/get-calories'')"
  by (simp add: redirect_to_def url_for_def endpoints_def ebind_def)

lemma get_calories_database:
  "database (get_calories fl s u) = s \<or>
   (\<exists>c. database (get_calories fl s u) = replace_target c s u)"
  by (auto simp: get_calories_def account_complete_def split: sum.splits)

lemma get_meals_database:
  "database (get_meals fl chosen s u) = s \<or>
   (\<exists>sel. database (get_meals fl chosen s u) = replace_diet fl sel s u)"
proof (cases chosen)
  case (Inl e)
  then show ?thesis by (simp add: get_meals_def account_complete_def)
next
  case (Inr sel)
  then have "database (get_meals fl chosen s u) = s \<or>
             database (get_meals fl chosen s u) = replace_diet fl sel s u"
    by (simp add: get_meals_def account_complete_def)
  then show ?thesis by blast
qed

lemma get_meals_success:
  assumes "details_complete u"
    and "first (\<lambda>r. uc_user_id r = user_id u) (user_calories s) \<noteq> None"
  shows "get_meals fl (Inr sel) s u =
           \<lparr>response = Inr (Redirect ''/show-meals''), flashed = [],
            database = replace_diet fl sel s u\<rparr>"
  using assms by (auto simp: get_meals_def account_complete_def redirect_to_show_meals)

lemma commit_user_tables:
  "user_calories (commit_user u' s) = user_calories s"
  "user_current_diet (commit_user u' s) = user_current_diet s"
  "user_current_diet_meals (commit_user u' s) = user_current_diet_meals s"
  "diet_calories (commit_user u' s) = diet_calories s"
  "user_weight_over_time (commit_user u' s) = user_weight_over_time s"
  "user_calories_over_time (commit_user u' s) = user_calories_over_time s"
  by (simp_all add: commit_user_def)

lemma finish_account_tables:
  "user_calories (database (finish_account now form s u)) = user_calories s"
  "user_current_diet (database (finish_account now form s u)) = user_current_diet s"
  "user_current_diet_meals (database (finish_account now form s u)) = user_current_diet_meals s"
  "diet_calories (database (finish_account now form s u)) = diet_calories s"
  by (simp_all add: finish_account_def Let_def commit_user_tables split: option.splits)

lemma account_tables:
  "user_calories (database (account now form s u)) = user_calories s"
  "user_current_diet (database (account now form s u)) = user_current_diet s"
  "user_current_diet_meals (database (account now form s u)) = user_current_diet_meals s"
  "diet_calories (database (account now form s u)) = diet_calories s"
  by (simp_all add: account_def Let_def commit_user_tables split: option.splits)

lemma save_calories_tables:
  "user_calories (database (save_calories now s u)) = user_calories s"
  "user_current_diet (database (save_calories now s u)) = user_current_diet s"
  "user_current_diet_meals (database (save_calories now s u)) = user_current_diet_meals s"
  "diet_calories (database (save_calories now s u)) = diet_calories s"
  by (simp_all add: save_calories_def account_complete_def split: sum.splits)

lemma store_inv_handle:
  assumes "store_inv s"
  shows "store_inv (database (handle fl now req s u))"
proof (cases req)
  case (Finish_account form)
  then show ?thesis using assms
    by (simp add: store_inv_cong[OF finish_account_tables])
next
  case (Account form)
  then show ?thesis using assms
    by (simp add: store_inv_cong[OF account_tables])
next
  case Get_calories
  then show ?thesis using assms get_calories_database[of fl s u]
    by (auto simp: store_inv_replace_target)
next
  case (Get_meals chosen)
  then show ?thesis using assms get_meals_database[of fl chosen s u]
    by (auto simp: store_inv_replace_diet)
next
  case Save_meal
  then show ?thesis using assms
    by (simp add: store_inv_cong[OF save_calories_tables])
qed

lemma register_tables:
  "user_calories (database (register h img form s cu)) = user_calories s"
  "user_current_diet (database (register h img form s cu)) = user_current_diet s"
  "user_current_diet_meals (database (register h img form s cu)) = user_current_diet_meals s"
  "diet_calories (database (register h img form s cu)) = diet_calories s"
  "user_weight_over_time (database (register h img form s cu)) = user_weight_over_time s"
  "user_calories_over_time (database (register h img form s cu)) = user_calories_over_time s"
  by (simp_all add: register_def Let_def split: option.splits)

lemma reset_token_tables:
  "user_calories (database (reset_token v h token pw s cu)) = user_calories s"
  "user_current_diet (database (reset_token v h token pw s cu)) = user_current_diet s"
  "user_current_diet_meals (database (reset_token v h token pw s cu)) = user_current_diet_meals s"
  "diet_calories (database (reset_token v h token pw s cu)) = diet_calories s"
  "user_weight_over_time (database (reset_token v h token pw s cu)) = user_weight_over_time s"
  "user_calories_over_time (database (reset_token v h token pw s cu)) = user_calories_over_time s"
  by (simp_all add: reset_token_def commit_user_tables split: option.splits)

lemma store_inv_serve:
  assumes "store_inv s"
  shows "store_inv (serve fl now req s cu)"
proof (cases req)
  case (Register h img form)
  then show ?thesis using assms
    by (simp add: store_inv_cong[OF register_tables(1-4)])
next
  case (Reset_token v h token pw)
  then show ?thesis using assms
    by (simp add: store_inv_cong[OF reset_token_tables(1-4)])
next
  case (Member r)
  then show ?thesis using assms
    by (simp add: store_inv_handle split: option.splits)
qed

lemma store_inv_step: "store_inv s \<Longrightarrow> store_inv (step fl s r)"
  by (simp add: step_def store_inv_serve split: prod.splits)

lemma store_inv_run: "store_inv s \<Longrightarrow> store_inv (run fl s rs)"
  by (induction rs arbitrary: s) (simp_all add: store_inv_step)

lemma store_inv_fresh: "fresh_db s \<Longrightarrow> store_inv s"
  by (simp add: fresh_db_def store_inv_def targets_of_def all_rows_def)

lemma store_inv_spec: 
  assumes "store_inv s"
  shows "spec_invariant s"
proof -
  have "length (diets_of s uid) \<le> 1" for uid
    using assms distinct_map_filter_le1[of ucd_user_id "user_current_diet s" uid]
    by (simp add: store_inv_def diets_of_def all_rows_def)
  with assms show ?thesis by (simp add: spec_invariant_def store_inv_def)
qed

lemma diets_of_first:
  assumes "store_inv s"
    and "first (\<lambda>d. ucd_user_id d = user_id u) (user_current_diet s) = Some d"
  shows "diets_of s (user_id u) = [d]"
  using assms distinct_first_filter[of ucd_user_id "user_current_diet s" "user_id u" d]
  by (simp add: store_inv_def diets_of_def all_rows_def)

lemma replace_diet_user_calories: "user_calories (replace_diet fl sel s u) = user_calories s"
  by (cases "first (\<lambda>d. ucd_user_id d = user_id u) (user_current_diet s)")
     (simp_all add: replace_diet_new replace_diet_existing)

section \<open>Results on the target and the diet\<close>

text \<open>
  C3. Start from a database that holds at most users and run any sequence of requests
  (\<open>/get-calories\<close>, \<open>/get-meals\<close>, and also \<open>/register\<close>, \<open>/finish-account\<close>,
  \<open>/account\<close>, \<open>/save-meal\<close> and \<open>/reset-password/<token>\<close>) by any users. Afterwards every user has at most one
  calorie target and at most one current diet, and every current diet has exactly three
  meal rows and one total. Replacing the diet twice in a row, for a user with a complete
  profile and a target, leaves that user exactly one diet, whose meal rows are the three
  of the second replacement, and one total.
\<close>

theorem one_target_one_diet_three_meals:
  assumes fresh: "fresh_db s0"
  shows "spec_invariant (run fl s0 rs) \<and>
    (details_complete u \<and>
     first (\<lambda>r. uc_user_id r = user_id u) (user_calories (run fl s0 rs)) \<noteq> None \<longrightarrow>
       (let s1 = database (get_meals fl (Inr sel1) (run fl s0 rs) u);
            s2 = database (get_meals fl (Inr sel2) s1 u)
        in \<exists>d. diets_of s2 (user_id u) = [d] \<and>
                meals_of s2 (ucd_id d) = user_current_meals (ucd_id d) sel2 \<and>
                length (meals_of s2 (ucd_id d)) = 3 \<and>
                length (totals_of s2 (ucd_id d)) = 1))"
proof (intro conjI impI)
  let ?s = "run fl s0 rs"
  from fresh have inv: "store_inv ?s" by (simp add: store_inv_fresh store_inv_run)
  then show "spec_invariant ?s" by (rule store_inv_spec)
  assume a: "details_complete u \<and>
     first (\<lambda>r. uc_user_id r = user_id u) (user_calories ?s) \<noteq> None"
  let ?s1 = "replace_diet fl sel1 ?s u"
  let ?s2 = "replace_diet fl sel2 ?s1 u"
  from a have g1: "database (get_meals fl (Inr sel1) ?s u) = ?s1"
    by (simp add: get_meals_success)
  from a have g2: "database (get_meals fl (Inr sel2) ?s1 u) = ?s2"
    by (simp add: get_meals_success replace_diet_user_calories)
  from inv have inv1: "store_inv ?s1" by (rule store_inv_replace_diet)
  then have inv2: "store_inv ?s2" by (rule store_inv_replace_diet)
  from replace_diet_result[OF inv1, of u fl sel2] obtain d where
    d: "first (\<lambda>d. ucd_user_id d = user_id u) (user_current_diet ?s2) = Some d"
       "meals_of ?s2 (ucd_id d) = user_current_meals (ucd_id d) sel2"
       "totals_of ?s2 (ucd_id d) = [diet_calories_of fl (ucd_id d) sel2]"
    by blast
  from diets_of_first[OF inv2 d(1)] d(2,3)
  have "diets_of ?s2 (user_id u) = [d] \<and>
        meals_of ?s2 (ucd_id d) = user_current_meals (ucd_id d) sel2 \<and>
        length (meals_of ?s2 (ucd_id d)) = 3 \<and> length (totals_of ?s2 (ucd_id d)) = 1"
    by (simp add: length_user_current_meals)
  then show "let s1 = database (get_meals fl (Inr sel1) ?s u);
            s2 = database (get_meals fl (Inr sel2) s1 u)
        in \<exists>d. diets_of s2 (user_id u) = [d] \<and>
                meals_of s2 (ucd_id d) = user_current_meals (ucd_id d) sel2 \<and>
                length (meals_of s2 (ucd_id d)) = 3 \<and>
                length (totals_of s2 (ucd_id d)) = 1"
    unfolding Let_def g1 g2 by blast
qed

theorem one_target_one_diet_three_meals_witness:
  "fresh_db example_db \<and>
   spec_invariant (run (\<lambda>x. x) example_db [(day1, Some 1, Member Get_calories)]) \<and>
   details_complete example_user \<and>
   (let s1 = database (get_meals (\<lambda>x. x) (Inr example_selection)
                (run (\<lambda>x. x) example_db [(day1, Some 1, Member Get_calories)]) example_user);
        s2 = database (get_meals (\<lambda>x. x) (Inr example_selection) s1 example_user)
    in \<exists>d. diets_of s2 (user_id example_user) = [d] \<and>
            meals_of s2 (ucd_id d) = user_current_meals (ucd_id d) example_selection \<and>
            length (meals_of s2 (ucd_id d)) = 3 \<and>
            length (totals_of s2 (ucd_id d)) = 1)"
proof -
  have f: "fresh_db example_db" by (simp add: fresh_db_def example_db_def)
  have c: "details_complete example_user"
    by (simp add: details_complete_def truthy_num_def truthy_str_def example_user_def)
  have t: "first (\<lambda>r. uc_user_id r = user_id example_user)
             (user_calories (run (\<lambda>x. x) example_db [(day1, Some 1, Member Get_calories)])) \<noteq> None"
    by code_simp
  from one_target_one_diet_three_meals[OF f, of "\<lambda>x. x" "[(day1, Some 1, Member Get_calories)]"
      example_user example_selection example_selection] f c t
  show ?thesis by blast
qed

text \<open>
  C4. In any database reached as above, when \<open>/get-meals\<close> assembles a diet for a user
  with a complete profile and a target, the one total stored for that user's diet is
  breakfast calories times breakfast serving plus lunch calories times lunch serving plus
  dinner calories times dinner serving, added from the left in floating point.
\<close>

theorem diet_total_is_sum:
  assumes fresh: "fresh_db s0"
    and u: "details_complete u"
    and target: "first (\<lambda>r. uc_user_id r = user_id u) (user_calories (run fl s0 rs)) \<noteq> None"
  shows "\<exists>d. diets_of (database (get_meals fl
                  (Inr ((breakfast, breakfast_serving), (lunch, lunch_serving),
                        (dinner, dinner_serving))) (run fl s0 rs) u)) (user_id u) = [d] \<and>
             totals_of (database (get_meals fl
                  (Inr ((breakfast, breakfast_serving), (lunch, lunch_serving),
                        (dinner, dinner_serving))) (run fl s0 rs) u)) (ucd_id d) =
               [\<lparr>dc_user_current_diet_id = ucd_id d,
                 dc_calories =
                   fadd fl (fadd fl (fmul fl (meal_calories breakfast) breakfast_serving)
                                    (fmul fl (meal_calories lunch) lunch_serving))
                           (fmul fl (meal_calories dinner) dinner_serving)\<rparr>]"
proof -
  let ?s = "run fl s0 rs"
  let ?sel = "((breakfast, breakfast_serving), (lunch, lunch_serving), (dinner, dinner_serving))"
  let ?s1 = "replace_diet fl ?sel ?s u"
  from fresh have inv: "store_inv ?s" by (simp add: store_inv_fresh store_inv_run)
  from u target have g: "database (get_meals fl (Inr ?sel) ?s u) = ?s1"
    by (simp add: get_meals_success)
  from inv have inv1: "store_inv ?s1" by (rule store_inv_replace_diet)
  from replace_diet_result[OF inv, of u fl ?sel] obtain d where
    d: "first (\<lambda>d. ucd_user_id d = user_id u) (user_current_diet ?s1) = Some d"
       "totals_of ?s1 (ucd_id d) = [diet_calories_of fl (ucd_id d) ?sel]"
    by blast
  from diets_of_first[OF inv1 d(1)] d(2) show ?thesis
    unfolding g by (simp add: diet_calories_of_def)
qed

theorem diet_total_is_sum_witness:
  "fresh_db example_db \<and> details_complete example_user \<and>
   (\<exists>d. diets_of (database (get_meals (\<lambda>x. x) (Inr example_selection) target_only_db
                       example_user)) 1 = [d] \<and>
        totals_of (database (get_meals (\<lambda>x. x) (Inr example_selection) target_only_db
                       example_user)) (ucd_id d)
          = [\<lparr>dc_user_current_diet_id = ucd_id d, dc_calories = 300 * 2 + 450 * 1.5 + 600 * 1\<rparr>])"
proof -
  have f: "fresh_db example_db" by (simp add: fresh_db_def example_db_def)
  have c: "details_complete example_user"
    by (simp add: details_complete_def truthy_num_def truthy_str_def example_user_def)
  have t: "first (\<lambda>r. uc_user_id r = user_id example_user)
             (user_calories (run (\<lambda>x. x) example_db [(day1, Some 1, Member Get_calories)])) \<noteq> None"
    by code_simp
  have u: "user_id example_user = 1" by (simp add: example_user_def)
  from diet_total_is_sum[OF f c t, of "\<lparr>meal_id = 11, meal_calories = 300\<rparr>" 2
      "\<lparr>meal_id = 12, meal_calories = 450\<rparr>" "1.5" "\<lparr>meal_id = 13, meal_calories = 600\<rparr>" 1]
  show ?thesis using f c
    by (simp add: target_only_db_def example_selection_def u fadd_def fmul_def)
qed

section \<open>Results on requests that come too early\<close>

text \<open>
  C5, as amended. Before a calorie target exists, \<open>/get-meals\<close> writes nothing and, for a
  complete profile, redirects to \<open>/get-calories\<close> without flashing any notice;
  \<open>/show-calories\<close> writes nothing and, for a complete profile, flashes "Please choose your
  meals first". Before a current diet exists, \<open>/save-meal\<close> writes nothing.
\<close>

theorem missing_precondition_persists_nothing:
  "(first (\<lambda>r. uc_user_id r = user_id u) (user_calories s) = None \<longrightarrow>
      database (get_meals fl chosen s u) = s \<and>
      (details_complete u \<longrightarrow>
         response (get_meals fl chosen s u) = Inr (Redirect ''/get-calories'') \<and>
         flashed (get_meals fl chosen s u) = []) \<and>
      database (show_calories fl now form_time s u) = s \<and>
      (details_complete u \<longrightarrow>
         flashed (show_calories fl now form_time s u)
           = [(''Please choose your meals first'', ''danger'')])) \<and>
   (first (\<lambda>d. ucd_user_id d = user_id u) (user_current_diet s) = None \<longrightarrow>
      database (save_calories now s u) = s)"
  by (simp add: get_meals_def show_calories_def save_calories_def account_complete_def
      redirect_to_get_calories attr_def ebind_def)

theorem missing_precondition_persists_nothing_witness:
  "first (\<lambda>r. uc_user_id r = user_id example_user) (user_calories example_db) = None \<and>
   first (\<lambda>d. ucd_user_id d = user_id example_user) (user_current_diet example_db) = None \<and>
   details_complete example_user \<and>
   database (get_meals (\<lambda>x. x) (Inr example_selection) example_db example_user) = example_db \<and>
   response (get_meals (\<lambda>x. x) (Inr example_selection) example_db example_user)
     = Inr (Redirect ''/get-calories'') \<and>
   flashed (get_meals (\<lambda>x. x) (Inr example_selection) example_db example_user) = [] \<and>
   database (show_calories (\<lambda>x. x) day1 None example_db example_user) = example_db \<and>
   flashed (show_calories (\<lambda>x. x) day1 None example_db example_user)
     = [(''Please choose your meals first'', ''danger'')] \<and>
   database (save_calories day1 example_db example_user) = example_db"
proof -
  have a: "first (\<lambda>r. uc_user_id r = user_id example_user) (user_calories example_db) = None"
    by (simp add: example_db_def first_def)
  have b: "first (\<lambda>d. ucd_user_id d = user_id example_user) (user_current_diet example_db) = None"
    by (simp add: example_db_def first_def)
  have c: "details_complete example_user"
    by (simp add: details_complete_def truthy_num_def truthy_str_def example_user_def)
  from missing_precondition_persists_nothing[of example_user example_db "\<lambda>x. x"
      "Inr example_selection" day1 None] a b c
  show ?thesis by blast
qed

text \<open>
  The original wording asked for a redirect with a notice in all three cases. On a
  database that holds one user and nothing else, \<open>/get-meals\<close> redirects with no notice,
  \<open>/show-calories\<close> asks \<open>url_for\<close> for \<open>show-meals\<close>, which is no endpoint, and
  \<open>/save-meal\<close> reads \<open>.id\<close> of a diet that \<open>first()\<close> did not find.
\<close>

theorem missing_precondition_counterexample:
  "get_meals (\<lambda>x. x) (Inr example_selection) example_db example_user
     = \<lparr>response = Inr (Redirect ''/get-calories''), flashed = [], database = example_db\<rparr> \<and>
   response (show_calories (\<lambda>x. x) day1 None example_db example_user) = Inl BuildError \<and>
   response (save_calories day1 example_db example_user) = Inl AttributeError"
  by code_simp

section \<open>Results on a window without samples\<close>

text \<open>
  C7. The statement is that a history query over a window without samples is reported to
  the user as an empty period, without failure. For a user with a complete profile and a
  target whose window holds no calorie sample, \<open>/show-calories\<close> does flash the notice,
  but then asks \<open>url_for\<close> for \<open>show-calories\<close>; the endpoint is \<open>show_calories\<close>, so the
  request ends in \<open>BuildError\<close>. The database is left as it was. \<open>/show-weight\<close> renders
  the page with empty lists.
\<close>

theorem show_calories_empty_window:
  assumes "details_complete u"
  shows
    "(first (\<lambda>r. uc_user_id r = user_id u) (user_calories s) \<noteq> None \<and>
      snd (calories_query now form_time s u) = Some [] \<longrightarrow>
        show_calories fl now form_time s u =
          \<lparr>response = Inl BuildError,
           flashed = [(''You have not entered any calories in this period'', ''danger'')],
           database = s\<rparr>) \<and>
     (snd (weights_query now form_time s u) = Some [] \<longrightarrow>
        show_weight now form_time s u =
          \<lparr>response = Inr (Render_weight_over_time (fst (weights_query now form_time s u)) [] []),
           flashed = [], database = s\<rparr>)"
proof (intro conjI impI)
  assume "first (\<lambda>r. uc_user_id r = user_id u) (user_calories s) \<noteq> None \<and>
      snd (calories_query now form_time s u) = Some []"
  with assms show "show_calories fl now form_time s u =
          \<lparr>response = Inl BuildError,
           flashed = [(''You have not entered any calories in this period'', ''danger'')],
           database = s\<rparr>"
    by (auto simp: show_calories_def account_complete_def local_var_def attr_def ebind_def
        redirect_to_def url_for_def endpoints_def split: prod.splits)
next
  assume "snd (weights_query now form_time s u) = Some []"
  with assms show "show_weight now form_time s u =
          \<lparr>response = Inr (Render_weight_over_time (fst (weights_query now form_time s u)) [] []),
           flashed = [], database = s\<rparr>"
    by (auto simp: show_weight_def account_complete_def local_var_def split: prod.splits)
qed

theorem show_calories_empty_window_witness:
  "show_calories (\<lambda>x. x) day2 None target_only_db example_user =
     \<lparr>response = Inl BuildError,
      flashed = [(''You have not entered any calories in this period'', ''danger'')],
      database = target_only_db\<rparr> \<and>
   show_weight day2 None target_only_db example_user =
     \<lparr>response = Inr (Render_weight_over_time ''1 Month'' [] []),
      flashed = [], database = target_only_db\<rparr>"
proof -
  have c: "details_complete example_user"
    by (simp add: details_complete_def truthy_num_def truthy_str_def example_user_def)
  have t: "first (\<lambda>r. uc_user_id r = user_id example_user) (user_calories target_only_db) \<noteq> None"
    by code_simp
  have e: "snd (calories_query day2 None target_only_db example_user) = Some []"
    by code_simp
  have w: "snd (weights_query day2 None target_only_db example_user) = Some []"
    "fst (weights_query day2 None target_only_db example_user) = ''1 Month''"
    by code_simp+
  from show_calories_empty_window[OF c, of target_only_db day2 None "\<lambda>x. x"] t e w
  show ?thesis by simp
qed

section \<open>Results on the password reset\<close>

text \<open>
  C8, as amended. When verification of the token yields no user, no row is written; a
  visitor who is not logged in is told "That is an invalid or expired token" and sent to
  the reset-request page, while a logged-in visitor is sent to the home page without a
  notice, before the token is looked at.
\<close>

theorem reset_token_null:
  assumes "verify_reset_token token = None"
  shows "database (reset_token verify_reset_token generate_password_hash token form_password
                     s current_user) = s \<and>
         (current_user = None \<longrightarrow>
            response (reset_token verify_reset_token generate_password_hash token form_password
                        s current_user) = Inr (Redirect ''/reset-password'') \<and>
            flashed (reset_token verify_reset_token generate_password_hash token form_password
                       s current_user) = [(''That is an invalid or expired token'', ''warning'')]) \<and>
         (current_user \<noteq> None \<longrightarrow>
            response (reset_token verify_reset_token generate_password_hash token form_password
                        s current_user) = Inr (Redirect ''/'') \<and>
            flashed (reset_token verify_reset_token generate_password_hash token form_password
                       s current_user) = [])"
  using assms by (simp add: reset_token_def redirect_to_def url_for_def endpoints_def ebind_def)

theorem reset_token_null_witness:
  "reset_token (\<lambda>t. None) (\<lambda>p. p) ''expired'' (Some ''secret'') example_db None
     = \<lparr>response = Inr (Redirect ''/reset-password''),
        flashed = [(''That is an invalid or expired token'', ''warning'')],
        database = example_db\<rparr>"
  using reset_token_null[of "\<lambda>t. None" "''expired''" "\<lambda>p. p" "Some ''secret''" example_db None]
  by (cases "reset_token (\<lambda>t. None) (\<lambda>p. p) ''expired'' (Some ''secret'') example_db None") simp

text \<open>
  The original wording promised the notice and the reset-request page for every such
  token. A logged-in visitor with an expired token gets neither.
\<close>

theorem reset_token_counterexample:
  "reset_token (\<lambda>t. None) (\<lambda>p. p) ''expired'' None example_db (Some example_user)
     = \<lparr>response = Inr (Redirect ''/''), flashed = [], database = example_db\<rparr>"
  by (simp add: reset_token_def redirect_to_def url_for_def endpoints_def ebind_def)

section \<open>Results on the profile form\<close>

text \<open>
  C10. A valid POST to \<open>/account\<close> appends one weight sample (the submitted weight, for
  this user, stamped with the time of the request) if the submitted weight differs from
  the stored one, and leaves the weight history as it was otherwise, whatever else the
  form changes.
\<close>

theorem account_weight_history:
  "user_weight_over_time (database (account now (Some f) s u)) =
     (if weight u \<noteq> Some (f_weight f)
      then user_weight_over_time s @ [new_weight_sample now (user_id u) (f_weight f)]
      else user_weight_over_time s)"
  by (simp add: account_def Let_def commit_user_tables split: option.splits)

theorem account_weight_history_witness:
  "user_weight_over_time (database (account day1 (Some example_account_form) example_db example_user))
     = [\<lparr>uw_user_id = 1, uw_weight = 72, uw_created_at = day1\<rparr>] \<and>
   user_weight_over_time (database (account day1
       (Some (example_account_form\<lparr>f_weight := 70, f_name := ''Ada L.'', f_height := 176\<rparr>))
       example_db example_user)) = []"
  using account_weight_history[of day1 example_account_form example_db example_user]
    account_weight_history[of day1
      "example_account_form\<lparr>f_weight := 70, f_name := ''Ada L.'', f_height := 176\<rparr>"
      example_db example_user]
  by (simp add: example_account_form_def example_db_def example_user_def new_weight_sample_def)

section \<open>The history queries\<close>

lemma weight_series_map:
  "weight_series rows labels vals =
     (labels @ map (\<lambda>r. strftime_md (uw_created_at r)) rows, vals @ map uw_weight rows)"
  by (induction rows arbitrary: labels vals) simp_all

lemma calories_series_map:
  "calories_series rows labels vals =
     (labels @ map (\<lambda>r. strftime_md (uco_created_at r)) rows, vals @ map uco_calories rows)"
  by (induction rows arbitrary: labels vals) simp_all

lemma weight_window_cases:
  assumes "(tf, days) \<in> set spec_weight_windows"
  shows "(tf = ''1 Week'' \<and> days = 7) \<or> (tf = ''2 Weeks'' \<and> days = 14) \<or>
         (tf = ''3 Weeks'' \<and> days = 21) \<or> (tf = ''1 Month'' \<and> days = 30) \<or>
         (tf = ''3 Months'' \<and> days = 90) \<or> (tf = ''6 Months'' \<and> days = 180) \<or>
         (tf = ''1 Year'' \<and> days = 365)"
  using assms unfolding spec_weight_windows_def spec_calorie_windows_def
  by (simp only: append.simps list.set insert_iff empty_iff prod.inject simp_thms)

lemma calorie_window_cases:
  assumes "(tf, days) \<in> set spec_calorie_windows"
  shows "(tf = ''1 Week'' \<and> days = 7) \<or> (tf = ''2 Weeks'' \<and> days = 14) \<or>
         (tf = ''3 Weeks'' \<and> days = 21) \<or> (tf = ''1 Month'' \<and> days = 30)"
  using assms unfolding spec_calorie_windows_def
  by (simp only: list.set insert_iff empty_iff prod.inject simp_thms)

lemma weights_query_window:
  assumes "(tf, days) \<in> set spec_weight_windows"
  shows "weights_query now (Some tf) s u = (tf, Some (spec_weight_history s (user_id u) now days))"
  using weight_window_cases[OF assms]
  by (elim disjE conjE; hypsubst;
      simp add: weights_query_def weights_since_def all_rows_def spec_weight_history_def
        timedelta_days_def)

lemma calories_query_window:
  assumes "(tf, days) \<in> set spec_calorie_windows"
  shows "calories_query now (Some tf) s u
           = (tf, Some (spec_calories_history s (user_id u) now days))"
  using calorie_window_cases[OF assms]
  by (elim disjE conjE; hypsubst;
      simp add: calories_query_def calories_since_def all_rows_def spec_calories_history_def
        timedelta_days_def)

lemma show_weight_window:
  assumes "(tf, days) \<in> set spec_weight_windows" and "details_complete u"
  shows "show_weight now (Some tf) s u =
           \<lparr>response = Inr (Render_weight_over_time tf
               (map (\<lambda>r. strftime_md (uw_created_at r)) (spec_weight_history s (user_id u) now days))
               (map uw_weight (spec_weight_history s (user_id u) now days))),
            flashed = [], database = s\<rparr>"
  using assms(2)
  by (simp add: show_weight_def account_complete_def weights_query_window[OF assms(1)]
      local_var_def weight_series_map)

lemma show_calories_window:
  assumes w: "(tf, days) \<in> set spec_calorie_windows" and u: "details_complete u"
    and t: "first (\<lambda>r. uc_user_id r = user_id u) (user_calories s) = Some target"
    and ne: "spec_calories_history s (user_id u) now days \<noteq> []"
  shows "show_calories fl now (Some tf) s u =
           \<lparr>response = Inr (Render_calories_over_time tf
               (map (\<lambda>r. strftime_md (uco_created_at r))
                  (spec_calories_history s (user_id u) now days))
               (map uco_calories (spec_calories_history s (user_id u) now days))
               (uc_calories target)
               (py_round (fdiv fl
                  (py_sum fl (map uco_calories (spec_calories_history s (user_id u) now days)))
                  (of_nat (length (spec_calories_history s (user_id u) now days)))))),
            flashed = [], database = s\<rparr>"
  using u t ne
  by (simp add: show_calories_def account_complete_def calories_query_window[OF w]
      local_var_def attr_def ebind_def calories_series_map Let_def)

subsection \<open>Time order\<close>

lemma sorted_snoc_le:
  "sorted (xs @ [t]) \<Longrightarrow> t \<le> (t'::int) \<Longrightarrow> sorted (xs @ [t'])"
  by (auto simp: sorted_append)

lemma sorted_snoc_snoc:
  "sorted (xs @ [t]) \<Longrightarrow> t \<le> (t'::int) \<Longrightarrow> sorted (xs @ [t', t'])"
  by (auto simp: sorted_append)

lemma handle_weight_log:
  "user_weight_over_time (database (handle fl now req s u)) = user_weight_over_time s \<or>
   (\<exists>uid w. user_weight_over_time (database (handle fl now req s u))
      = user_weight_over_time s @ [new_weight_sample now uid w])"
proof (cases req)
  case (Finish_account form)
  then show ?thesis
    by (auto simp: finish_account_def Let_def commit_user_tables split: option.splits)
next
  case (Account form)
  then show ?thesis
    by (auto simp: account_def Let_def commit_user_tables split: option.splits)
next
  case Get_calories
  then show ?thesis using get_calories_database[of fl s u]
    by (auto simp: replace_target_def Let_def)
next
  case (Get_meals chosen)
  have "user_weight_over_time (replace_diet fl sel s u) = user_weight_over_time s" for sel
    by (cases "first (\<lambda>d. ucd_user_id d = user_id u) (user_current_diet s)")
       (simp_all add: replace_diet_new replace_diet_existing)
  with Get_meals show ?thesis using get_meals_database[of fl chosen s u] by auto
next
  case Save_meal
  then show ?thesis
    by (auto simp: save_calories_def account_complete_def split: sum.splits)
qed

lemma handle_calories_log:
  "user_calories_over_time (database (handle fl now req s u)) = user_calories_over_time s \<or>
   (\<exists>uid c. user_calories_over_time (database (handle fl now req s u))
      = user_calories_over_time s @ [new_calories_sample now uid c])"
proof (cases req)
  case (Finish_account form)
  then show ?thesis
    by (auto simp: finish_account_def Let_def commit_user_tables split: option.splits)
next
  case (Account form)
  then show ?thesis
    by (auto simp: account_def Let_def commit_user_tables split: option.splits)
next
  case Get_calories
  then show ?thesis using get_calories_database[of fl s u]
    by (auto simp: replace_target_def Let_def)
next
  case (Get_meals chosen)
  have "user_calories_over_time (replace_diet fl sel s u) = user_calories_over_time s" for sel
    by (cases "first (\<lambda>d. ucd_user_id d = user_id u) (user_current_diet s)")
       (simp_all add: replace_diet_new replace_diet_existing)
  with Get_meals show ?thesis using get_meals_database[of fl chosen s u] by auto
next
  case Save_meal
  then show ?thesis
    by (auto simp: save_calories_def account_complete_def split: sum.splits)
qed

lemma chronological_handle:
  assumes c: "chronological s t" and le: "t \<le> now"
  shows "chronological (database (handle fl now req s u)) now"
proof -
  have w: "sorted (map uw_created_at (user_weight_over_time (database (handle fl now req s u)))
             @ [now])"
    using handle_weight_log[of fl now req s u] c le
    by (auto simp: chronological_def new_weight_sample_def
        intro: sorted_snoc_le sorted_snoc_snoc)
  have k: "sorted (map uco_created_at (user_calories_over_time (database (handle fl now req s u)))
             @ [now])"
    using handle_calories_log[of fl now req s u] c le
    by (auto simp: chronological_def new_calories_sample_def
        intro: sorted_snoc_le sorted_snoc_snoc)
  from w k show ?thesis by (simp add: chronological_def)
qed

lemma chronological_serve:
  assumes c: "chronological s t" and le: "t \<le> now"
  shows "chronological (serve fl now req s cu) now"
proof -
  from c le have same: "chronological s now"
    by (auto simp: chronological_def intro: sorted_snoc_le)
  show ?thesis
  proof (cases req)
    case (Register h img form)
    with same show ?thesis by (simp add: chronological_def register_tables)
  next
    case (Reset_token v h token pw)
    with same show ?thesis by (simp add: chronological_def reset_token_tables)
  next
    case (Member r)
    with same c le show ?thesis
      by (simp add: chronological_handle split: option.splits)
  qed
qed

lemma chronological_step:
  assumes "chronological s t" and "t \<le> fst r"
  shows "chronological (step fl s r) (fst r)"
  using assms by (cases r) (simp add: step_def chronological_serve)

lemma chronological_run:
  "chronological s t \<Longrightarrow> sorted (t # map fst rs) \<Longrightarrow>
   chronological (run fl s rs) (last (t # map fst rs))"
proof (induction rs arbitrary: s t)
  case Nil
  then show ?case by simp
next
  case (Cons r rs)
  from Cons.prems(2) have le: "t \<le> fst r" and rest: "sorted (fst r # map fst rs)" by simp_all
  from Cons.prems(1) le have "chronological (step fl s r) (fst r)" by (rule chronological_step)
  from Cons.IH[OF this rest] show ?case by simp
qed

lemma chronological_fresh: "fresh_db s \<Longrightarrow> chronological s t"
  by (simp add: fresh_db_def chronological_def)

lemma run_logs_sorted:
  assumes "fresh_db s0" and "clock_monotone rs"
  shows "sorted (map uw_created_at (user_weight_over_time (run fl s0 rs))) \<and>
         sorted (map uco_created_at (user_calories_over_time (run fl s0 rs)))"
proof (cases rs)
  case Nil
  with assms(1) show ?thesis by (simp add: fresh_db_def)
next
  case (Cons r rs')
  from assms(2) Cons have "sorted (fst r # map fst rs)" by (simp add: clock_monotone_def)
  from chronological_run[OF chronological_fresh[OF assms(1)] this]
  show ?thesis by (auto simp: chronological_def sorted_append)
qed

lemma history_sorted:
  assumes "fresh_db s0" and "clock_monotone rs"
  shows "sorted (map uw_created_at (spec_weight_history (run fl s0 rs) uid now days)) \<and>
         sorted (map uco_created_at (spec_calories_history (run fl s0 rs) uid now days))"
  using run_logs_sorted[OF assms, of fl]
  by (simp add: spec_weight_history_def spec_calories_history_def sorted_filter)

section \<open>Results on the history queries\<close>

text \<open>
  C6, as amended. For a named window (7, 14, 21, 30 days for 1, 2, 3 Weeks and 1 Month;
  for weight also 90, 180, 365 days for 3, 6 Months and 1 Year) the query returns exactly
  the user's samples stamped at or after now minus the window, in the order in which they
  were stored. \<open>/show-weight\<close> renders them as a list of month/day labels and a list of
  values of the same length and order; \<open>/show-calories\<close> does so when a target exists and
  the result is not empty. The stored order is the order of time in every database that
  a run with a clock that never goes backwards has produced.
\<close>

theorem history_query_window:
  assumes w: "(tf, days) \<in> set spec_weight_windows"
    and c: "(tf', days') \<in> set spec_calorie_windows"
    and u: "details_complete u"
  shows
   "show_weight now (Some tf) s u =
      \<lparr>response = Inr (Render_weight_over_time tf
          (map (\<lambda>r. strftime_md (uw_created_at r)) (spec_weight_history s (user_id u) now days))
          (map uw_weight (spec_weight_history s (user_id u) now days))),
       flashed = [], database = s\<rparr> \<and>
    calories_query now (Some tf') s u
      = (tf', Some (spec_calories_history s (user_id u) now days')) \<and>
    (first (\<lambda>r. uc_user_id r = user_id u) (user_calories s) \<noteq> None \<and>
     spec_calories_history s (user_id u) now days' \<noteq> [] \<longrightarrow>
       database (show_calories fl now (Some tf') s u) = s \<and>
       (\<exists>recommended_intake averaged.
          response (show_calories fl now (Some tf') s u) =
            Inr (Render_calories_over_time tf'
              (map (\<lambda>r. strftime_md (uco_created_at r))
                 (spec_calories_history s (user_id u) now days'))
              (map uco_calories (spec_calories_history s (user_id u) now days'))
              recommended_intake averaged))) \<and>
    (fresh_db s0 \<and> clock_monotone rs \<and> s = run fl s0 rs \<longrightarrow>
       sorted (map uw_created_at (spec_weight_history s (user_id u) now days)) \<and>
       sorted (map uco_created_at (spec_calories_history s (user_id u) now days')))"
proof (intro conjI impI)
  show "show_weight now (Some tf) s u =
      \<lparr>response = Inr (Render_weight_over_time tf
          (map (\<lambda>r. strftime_md (uw_created_at r)) (spec_weight_history s (user_id u) now days))
          (map uw_weight (spec_weight_history s (user_id u) now days))),
       flashed = [], database = s\<rparr>"
    using w u by (rule show_weight_window)
  show "calories_query now (Some tf') s u
      = (tf', Some (spec_calories_history s (user_id u) now days'))"
    using c by (rule calories_query_window)
next
  assume a: "first (\<lambda>r. uc_user_id r = user_id u) (user_calories s) \<noteq> None \<and>
     spec_calories_history s (user_id u) now days' \<noteq> []"
  then obtain target where
    t: "first (\<lambda>r. uc_user_id r = user_id u) (user_calories s) = Some target" by auto
  from a have ne: "spec_calories_history s (user_id u) now days' \<noteq> []" by simp
  note r = show_calories_window[OF c u t ne, of fl]
  show "database (show_calories fl now (Some tf') s u) = s" by (simp add: r)
  show "\<exists>recommended_intake averaged.
          response (show_calories fl now (Some tf') s u) =
            Inr (Render_calories_over_time tf'
              (map (\<lambda>r. strftime_md (uco_created_at r))
                 (spec_calories_history s (user_id u) now days'))
              (map uco_calories (spec_calories_history s (user_id u) now days'))
              recommended_intake averaged)"
    by (simp add: r)
next
  assume a: "fresh_db s0 \<and> clock_monotone rs \<and> s = run fl s0 rs"
  then have "sorted (map uw_created_at (spec_weight_history s (user_id u) now days)) \<and>
       sorted (map uco_created_at (spec_calories_history s (user_id u) now days'))"
    using history_sorted[of s0 rs fl "user_id u" now] by blast
  then show "sorted (map uw_created_at (spec_weight_history s (user_id u) now days))"
    and "sorted (map uco_created_at (spec_calories_history s (user_id u) now days'))"
    by simp_all
qed

theorem history_query_window_witness:
  "show_weight day2 (Some ''1 Week'') (run (\<lambda>x. x) example_db example_run) example_user =
      \<lparr>response = Inr (Render_weight_over_time ''1 Week''
          (map (\<lambda>r. strftime_md (uw_created_at r))
             (spec_weight_history (run (\<lambda>x. x) example_db example_run)
                (user_id example_user) day2 7))
          (map uw_weight
             (spec_weight_history (run (\<lambda>x. x) example_db example_run)
                (user_id example_user) day2 7))),
       flashed = [], database = run (\<lambda>x. x) example_db example_run\<rparr> \<and>
   map (\<lambda>r. strftime_md (uw_created_at r))
     (spec_weight_history (run (\<lambda>x. x) example_db example_run) (user_id example_user) day2 7)
     = [''11/04''] \<and>
   map uw_weight
     (spec_weight_history (run (\<lambda>x. x) example_db example_run) (user_id example_user) day2 7)
     = [72] \<and>
   calories_query day2 (Some ''2 Weeks'') (run (\<lambda>x. x) example_db example_run) example_user
      = (''2 Weeks'', Some (spec_calories_history (run (\<lambda>x. x) example_db example_run)
                             (user_id example_user) day2 14)) \<and>
   response (show_calories (\<lambda>x. x) day2 (Some ''2 Weeks'') (run (\<lambda>x. x) example_db example_run)
       example_user) = Inr (Render_calories_over_time ''2 Weeks'' [''11/04''] [1875] 2680 1875) \<and>
   sorted (map uw_created_at
     (spec_weight_history (run (\<lambda>x. x) example_db example_run) (user_id example_user) day2 7)) \<and>
   sorted (map uco_created_at
     (spec_calories_history (run (\<lambda>x. x) example_db example_run) (user_id example_user) day2 14))"
proof -
  let ?s = "run (\<lambda>x. x) example_db example_run"
  have w: "(''1 Week'', 7) \<in> set spec_weight_windows"
    by (simp add: spec_weight_windows_def spec_calorie_windows_def)
  have c: "(''2 Weeks'', 14) \<in> set spec_calorie_windows"
    by (simp add: spec_calorie_windows_def)
  have u: "details_complete example_user"
    by (simp add: details_complete_def truthy_num_def truthy_str_def example_user_def)
  have f: "fresh_db example_db" by (simp add: fresh_db_def example_db_def)
  have m: "clock_monotone example_run" by code_simp
  have l: "map (\<lambda>r. strftime_md (uw_created_at r))
             (spec_weight_history ?s (user_id example_user) day2 7) = [''11/04'']"
    "map uw_weight (spec_weight_history ?s (user_id example_user) day2 7) = [72]"
    by code_simp+
  have r: "response (show_calories (\<lambda>x. x) day2 (Some ''2 Weeks'') ?s example_user)
       = Inr (Render_calories_over_time ''2 Weeks'' [''11/04''] [1875] 2680 1875)"
    by code_simp
  from history_query_window[OF w c u, of day2 ?s "\<lambda>x. x" example_db example_run] f m l r
  show ?thesis by blast
qed

text \<open>
  The original wording had the result ordered by time. The query has no ordering clause,
  and \<open>datetime.now()\<close> is the wall clock, which can be set back: two weight changes
  recorded with the clock a day earlier at the second come back in the order of storage.
\<close>

theorem history_order_counterexample:
  "show_weight day2 (Some ''1 Week'') (run (\<lambda>x. x) example_db backwards_run) example_user
     = \<lparr>response = Inr (Render_weight_over_time ''1 Week'' [''11/05'', ''11/04''] [72, 74]),
        flashed = [], database = run (\<lambda>x. x) example_db backwards_run\<rparr> \<and>
   \<not> sorted (map uw_created_at
       (spec_weight_history (run (\<lambda>x. x) example_db backwards_run) 1 day2 7))"
  by code_simp

end
